theory Spec2Isabelle
  imports Complex_Main "HOL-Library.Word"
begin

section \<open>The Browser Session Handle as a recorded oracle\<close>

text \<open>
  The server (\<open>app3.js\<close>, and its variant \<open>app2.js\<close>) drives a remote browser
  through Puppeteer. The browser is not part of the program: it is modelled as an
  environment that answers every call as a function of the whole history of calls made
  so far. Each handler takes the history, appends the calls it makes in source order and
  returns the extended history, so "no interaction with the Browser Session Handle" is
  "the history is returned unchanged".

  CSS selectors and the closures handed to \<open>evaluate\<close> are named by constructors; the
  source text each one stands for is given beside it.
\<close>

datatype selector =
    SelUsername          \<comment> \<open>\<open>#username\<close>\<close>
  | SelPassword          \<comment> \<open>\<open>#password\<close>\<close>
  | SelLoginButton       \<comment> \<open>\<open>.login__form_action_container button\<close>\<close>
  | SelPasswordError     \<comment> \<open>\<open>#error-for-password\<close>\<close>
  | SelPinInput          \<comment> \<open>\<open>input[name="pin"]\<close>\<close>
  | SelSubmitButton      \<comment> \<open>\<open>button[type="submit"]\<close>\<close>
  | SelPhoneCountry      \<comment> \<open>\<open>#select-register-phone-country\<close>\<close>
  | SelPhoneNumber       \<comment> \<open>\<open>#register-verification-phone-number\<close>\<close>
  | SelPhoneSubmit       \<comment> \<open>\<open>#register-phone-submit-button\<close>\<close>

text \<open>
  The values a JSON request field can hold, as far as the server's tests on the tile
  number can tell them apart. A number is finite (any JavaScript number is a rational)
  or an infinity, which \<open>JSON.parse\<close> yields for a literal such as \<open>1e999\<close>; NaN is
  the missing number (\<open>None\<close>). What \<open>ToNumber\<close> makes of a string, an array or an
  object rests on the language's number parsing and floating-point rounding, which are
  not modelled: such a value carries the number \<open>ToNumber\<close> reads from it. So the type
  holds every value a request can carry (with the number the language reads from it)
  and more; what is proved for all of its values holds for those.
\<close>

datatype jsnum = Finite rat | PosInfinity | NegInfinity

datatype jsvalue =
    JUndefined                      \<comment> \<open>the field is missing\<close>
  | JNull
  | JBool bool
  | JNumber jsnum
  | JString string "jsnum option"   \<comment> \<open>a string, and \<open>ToNumber\<close> of it (\<open>None\<close>: NaN)\<close>
  | JObject "jsnum option"          \<comment> \<open>an object or array, and \<open>ToNumber\<close> of it\<close>

datatype script =
    ClickStartPuzzle     \<comment> \<open>the closure of \<open>findAndClickStartPuzzleButton\<close>\<close>
  | TilesLengthIs6       \<comment> \<open>\<open>tiles.length === 6\<close> in \<open>handlePuzzleTiles\<close>\<close>
  | FirstTileBlobUrl     \<comment> \<open>the first tile's \<open>url("blob:...")\<close> background, or null\<close>
  | DownloadLink string  \<comment> \<open>the anchor click of \<open>downloadPuzzlePiece\<close>, with the session id\<close>
  | TilesOuterHtml       \<comment> \<open>\<open>security-verification\<close>: the tiles' outerHTML, or null\<close>
  | ClickTile jsvalue    \<comment> \<open>\<open>select-tile\<close>: click \<open>tiles[selectedTile - 1]\<close> if it exists\<close>
  | ClearPinInput        \<comment> \<open>\<open>input.value = ""\<close> on the pin input\<close>
  | ClearPhoneInput      \<comment> \<open>\<open>phoneInput.value = ""\<close>\<close>
  | HasErrorBanner       \<comment> \<open>\<open>.body__banner--error\<close> present and not \<open>hidden__imp\<close>\<close>
  | ErrorSpanText        \<comment> \<open>the alert span's text, or the default message\<close>
  | HeaderText           \<comment> \<open>\<open>h1.content__header\<close> text trimmed, or null\<close>

text \<open>A signal handed to \<open>Promise.race\<close>, with its budget in milliseconds.\<close>

datatype signal =
    NavigationSignal nat   \<comment> \<open>\<open>page.waitForNavigation({ timeout })\<close>\<close>
  | NetworkIdleSignal nat  \<comment> \<open>\<open>page.waitForNetworkIdle({ timeout })\<close>\<close>
  | TimerSignal nat        \<comment> \<open>\<open>new Promise(resolve => setTimeout(resolve, ms))\<close>\<close>

text \<open>A frame and its embedded sub-documents, in document order.\<close>

datatype frame = Frame (frame_id: nat) (childFrames: "frame list")

text \<open>
  Calls on the browser. The first argument is the handle the method is called on: a
  browser, a page or a CDP session; frame calls carry the frame's id.
\<close>

datatype call =
    Launch                           \<comment> \<open>\<open>puppeteer.launch\<close>\<close>
  | NewPage nat                      \<comment> \<open>\<open>browser.newPage()\<close>\<close>
  | SetUserAgent nat
  | Goto nat string
  | WaitForSelector nat selector
  | TypeText nat selector string
  | Click nat selector
  | SelectOption nat selector string
  | QueryHandle nat selector         \<comment> \<open>\<open>page.$(selector)\<close>\<close>
  | Evaluate nat script              \<comment> \<open>\<open>page.evaluate\<close>\<close>
  | FrameEvaluate nat script         \<comment> \<open>\<open>frame.evaluate\<close>, by frame id\<close>
  | WaitForNavigation nat
  | WaitForUrlChange nat string      \<comment> \<open>\<open>page.waitForFunction(href !== oldUrl, 30000)\<close>\<close>
  | Race nat "signal list"           \<comment> \<open>\<open>Promise.race\<close> of the listed signals\<close>
  | Url nat                          \<comment> \<open>\<open>page.url()\<close>\<close>
  | Frames nat                       \<comment> \<open>\<open>page.frames()\<close>\<close>
  | MainFrame nat                    \<comment> \<open>\<open>page.mainFrame()\<close>\<close>
  | FrameUrl nat                     \<comment> \<open>\<open>frame.url()\<close>, by frame id\<close>
  | CreateCDPSession nat
  | CdpSend nat string
  | CdpDetach nat
  | ClosePage nat

type_synonym trace = "call list"

text \<open>
  The environment: for the history ending in the call just made, whether the call
  throws (with the error's message) and, if not, what it returns. One field per result
  type, so that no answer is ill-typed. Two more things the server reads from outside
  are kept here, as functions of the history but not as calls: whether a file exists in
  the download directory the browser writes to (\<open>fs.existsSync\<close>), and the identifier
  \<open>uuidv4()\<close> would generate. \<open>type_error m\<close> is the message of the TypeError the
  JavaScript engine raises when the method named \<open>m\<close> is read from \<open>undefined\<close>; its
  wording is the engine's.
\<close>

record browser_env =
  throws :: "trace \<Rightarrow> string option"
  handle_result :: "trace \<Rightarrow> nat"
  bool_result :: "trace \<Rightarrow> bool"
  text_result :: "trace \<Rightarrow> string option"
  message_result :: "trace \<Rightarrow> string"
  url_result :: "trace \<Rightarrow> string"
  frames_result :: "trace \<Rightarrow> frame list"
  main_frame_result :: "trace \<Rightarrow> frame"
  tiles_result :: "trace \<Rightarrow> string list option"
  type_error :: "string \<Rightarrow> string"
  file_exists :: "trace \<Rightarrow> string \<Rightarrow> bool"
  uuid_result :: "trace \<Rightarrow> string"

text \<open>
  A computation that may throw: \<open>Inl\<close> carries the thrown error's message. Awaited
  promises are run to completion in source order.
\<close>

type_synonym 'a io = "browser_env \<Rightarrow> trace \<Rightarrow> (string + 'a) \<times> trace"

definition io_return :: "'a \<Rightarrow> 'a io" where
  "io_return x = (\<lambda>env h. (Inr x, h))"

definition io_throw :: "string \<Rightarrow> 'a io" where
  "io_throw msg = (\<lambda>env h. (Inl msg, h))"

definition io_bind :: "'a io \<Rightarrow> ('a \<Rightarrow> 'b io) \<Rightarrow> 'b io" where
  "io_bind m f = (\<lambda>env h. case m env h of
       (Inl e, h') \<Rightarrow> (Inl e, h')
     | (Inr x, h') \<Rightarrow> f x env h')"

text \<open>\<open>try { m } catch (error) { handler error }\<close>\<close>

definition io_catch :: "'a io \<Rightarrow> (string \<Rightarrow> 'a io) \<Rightarrow> 'a io" where
  "io_catch m handler = (\<lambda>env h. case m env h of
       (Inl e, h') \<Rightarrow> handler e env h'
     | (Inr x, h') \<Rightarrow> (Inr x, h'))"

text \<open>\<open>try { m } finally { cleanup }\<close>: the cleanup runs either way; if it throws, its
  error replaces the outcome.\<close>

definition io_finally :: "'a io \<Rightarrow> unit io \<Rightarrow> 'a io" where
  "io_finally m cleanup = (\<lambda>env h. case m env h of
       (r, h') \<Rightarrow> (case cleanup env h' of
            (Inl e, h'') \<Rightarrow> (Inl e, h'')
          | (Inr _, h'') \<Rightarrow> (r, h'')))"

text \<open>An awaited call on the browser: recorded, then it throws or returns.\<close>

definition remote :: "call \<Rightarrow> (browser_env \<Rightarrow> trace \<Rightarrow> 'a) \<Rightarrow> 'a io" where
  "remote c rd = (\<lambda>env h. case throws env (h @ [c]) of
       Some msg \<Rightarrow> (Inl msg, h @ [c])
     | None \<Rightarrow> (Inr (rd env (h @ [c])), h @ [c]))"

text \<open>A synchronous read of Puppeteer's own state (\<open>page.url()\<close>, \<open>page.frames()\<close>,
  \<open>page.mainFrame()\<close>, \<open>frame.url()\<close>): recorded, never throws.\<close>

definition local_read :: "call \<Rightarrow> (browser_env \<Rightarrow> trace \<Rightarrow> 'a) \<Rightarrow> 'a io" where
  "local_read c rd = (\<lambda>env h. (Inr (rd env (h @ [c])), h @ [c]))"

definition no_result :: "browser_env \<Rightarrow> trace \<Rightarrow> unit" where
  "no_result env h = ()"

text \<open>\<open>Promise.all([a, b])\<close>: both are started, so both calls are recorded; the whole
  rejects if either does.\<close>

definition io_both :: "'a io \<Rightarrow> 'b io \<Rightarrow> ('a \<times> 'b) io" where
  "io_both a b = (\<lambda>env h. case a env h of
       (ra, h1) \<Rightarrow> (case b env h1 of
          (rb, h2) \<Rightarrow>
            (case ra of
               Inl e \<Rightarrow> (Inl e, h2)
             | Inr x \<Rightarrow> (case rb of Inl e \<Rightarrow> (Inl e, h2) | Inr y \<Rightarrow> (Inr (x, y), h2)))))"

text \<open>\<open>delay(ms)\<close> is a local timer: it touches no handle, and time is not modelled.\<close>

definition delay :: "nat \<Rightarrow> unit io" where
  "delay ms = io_return ()"

section \<open>Strings\<close>

text \<open>\<open>s.startsWith(p)\<close> and \<open>s.includes(p)\<close>.\<close>

fun starts_with :: "string \<Rightarrow> string \<Rightarrow> bool" where
  "starts_with s [] = True"
| "starts_with [] (p # ps) = False"
| "starts_with (c # s) (p # ps) = (c = p \<and> starts_with s ps)"

fun includes_str :: "string \<Rightarrow> string \<Rightarrow> bool" where
  "includes_str [] p = (p = [])"
| "includes_str (c # s) p = (starts_with (c # s) p \<or> includes_str s p)"

section \<open>HTTP responses\<close>

datatype body =
    SendText string          \<comment> \<open>\<open>res.send("...")\<close>\<close>
  | SendNull                 \<comment> \<open>\<open>res.send(null)\<close>\<close>
  | SendErr string           \<comment> \<open>\<open>res.send(err)\<close>, by the error's message\<close>
  | JsonError string         \<comment> \<open>\<open>res.json({ error: "..." })\<close>\<close>
  | JsonTiles "string list"  \<comment> \<open>\<open>res.json({ status: "success", tiles })\<close>\<close>
  | JsonExists bool          \<comment> \<open>\<open>res.json({ exists })\<close>\<close>
  | JsonRedirect string      \<comment> \<open>\<open>res.json({ redirect })\<close>\<close>
  | JsonSuccess              \<comment> \<open>\<open>res.json({ success: true })\<close>\<close>

datatype response = Response (status: nat) (body: body)

text \<open>\<open>res.send(headerText)\<close> where \<open>headerText\<close> is a string or null.\<close>

definition send_nullable :: "string option \<Rightarrow> response" where
  "send_nullable t = (case t of None \<Rightarrow> Response 200 SendNull | Some s \<Rightarrow> Response 200 (SendText s))"

section \<open>The Session Registry\<close>

text \<open>\<open>sessions[sessionId] = { browser, page }\<close>: an entry holds the two handles.\<close>

record session =
  browser :: nat
  page :: nat

type_synonym sessions = "string \<rightharpoonup> session"

text \<open>
  \<open>sessions\<close> is a plain object literal, so \<open>sessions[key]\<close> also finds what
  \<open>Object.prototype\<close> provides under that key: a truthy value that is no session and
  has no \<open>page\<close>.
\<close>

datatype lookup = Absent | Inherited | Own session

definition object_prototype_keys :: "string list" where
  "object_prototype_keys =
     [''constructor'', ''__proto__'', ''hasOwnProperty'', ''isPrototypeOf'',
      ''propertyIsEnumerable'', ''toLocaleString'', ''toString'', ''valueOf'',
      ''__defineGetter__'', ''__defineSetter__'', ''__lookupGetter__'', ''__lookupSetter__'']"

definition sessions_get :: "sessions \<Rightarrow> string \<Rightarrow> lookup" where
  "sessions_get ss sid =
     (case ss sid of
        Some s \<Rightarrow> Own s
      | None \<Rightarrow> if sid \<in> set object_prototype_keys then Inherited else Absent)"

text \<open>\<open>const { page } = session\<close> followed by the first use of \<open>page\<close>, the call of
  its method \<open>m\<close>: on an inherited value \<open>page\<close> is undefined and reading \<open>m\<close> from it
  throws a TypeError.\<close>

definition with_page :: "lookup \<Rightarrow> string \<Rightarrow> (nat \<Rightarrow> 'a io) \<Rightarrow> 'a io" where
  "with_page l m f =
     (case l of
        Own s \<Rightarrow> f (page s)
      | _ \<Rightarrow> (\<lambda>env h. (Inl (type_error env m), h)))"

section \<open>Request fields\<close>

text \<open>
  The session id, the email, the code, the phone number and the country code are taken
  as strings or as left out: \<open>!field\<close> holds for a missing field and for the empty
  string.
\<close>

definition falsy :: "string option \<Rightarrow> bool" where
  "falsy v = (case v of None \<Rightarrow> True | Some s \<Rightarrow> s = [])"

definition str_of :: "string option \<Rightarrow> string" where
  "str_of v = (case v of None \<Rightarrow> [] | Some s \<Rightarrow> s)"

text \<open>
  The tile number is used as it arrives, whatever its type. \<open>!v\<close> holds for undefined,
  null, false, zero and the empty string; \<open>v < c\<close> and \<open>v > c\<close> compare \<open>ToNumber(v)\<close>
  with \<open>c\<close> and are false when that is NaN.
\<close>

fun truthy :: "jsvalue \<Rightarrow> bool" where
  "truthy JUndefined = False"
| "truthy JNull = False"
| "truthy (JBool b) = b"
| "truthy (JNumber x) = (x \<noteq> Finite 0)"
| "truthy (JString s x) = (s \<noteq> [])"
| "truthy (JObject x) = True"

fun to_number :: "jsvalue \<Rightarrow> jsnum option" where
  "to_number JUndefined = None"
| "to_number JNull = Some (Finite 0)"
| "to_number (JBool b) = Some (Finite (if b then 1 else 0))"
| "to_number (JNumber x) = Some x"
| "to_number (JString s x) = x"
| "to_number (JObject x) = x"

fun num_less :: "jsnum \<Rightarrow> rat \<Rightarrow> bool" where
  "num_less (Finite q) c = (q < c)"
| "num_less PosInfinity c = False"
| "num_less NegInfinity c = True"

fun num_greater :: "jsnum \<Rightarrow> rat \<Rightarrow> bool" where
  "num_greater (Finite q) c = (q > c)"
| "num_greater PosInfinity c = True"
| "num_greater NegInfinity c = False"

definition js_less :: "jsvalue \<Rightarrow> rat \<Rightarrow> bool" where
  "js_less v c = (case to_number v of None \<Rightarrow> False | Some x \<Rightarrow> num_less x c)"

definition js_greater :: "jsvalue \<Rightarrow> rat \<Rightarrow> bool" where
  "js_greater v c = (case to_number v of None \<Rightarrow> False | Some x \<Rightarrow> num_greater x c)"

text \<open>\<open>!tileNumber || tileNumber < 1 || tileNumber > 6\<close>\<close>

definition invalid_tile :: "jsvalue \<Rightarrow> bool" where
  "invalid_tile v = (\<not> truthy v \<or> js_less v 1 \<or> js_greater v 6)"

section \<open>Frame search (\<open>findAndClickStartPuzzleButton\<close>)\<close>

text \<open>
  The frame's document is queried by \<open>frame.evaluate\<close>; a rejection of that promise is
  caught and counts as \<open>false\<close>. Then \<open>frame.childFrames()\<close> is walked in order. The
  \<open>depth\<close> and \<open>path\<close> parameters are only logged and are left out.
\<close>

fun findAndClickStartPuzzleButton :: "frame \<Rightarrow> bool io"
and findInChildFrames :: "frame list \<Rightarrow> bool io" where
  "findAndClickStartPuzzleButton (Frame fid children) =
     io_bind (io_catch (remote (FrameEvaluate fid ClickStartPuzzle) bool_result)
                       (\<lambda>error. io_return False)) (\<lambda>foundAndClicked.
       if foundAndClicked then io_return True else findInChildFrames children)"
| "findInChildFrames [] = io_return False"
| "findInChildFrames (childFrame # rest) =
     io_bind (findAndClickStartPuzzleButton childFrame) (\<lambda>found.
       if found then io_return True else findInChildFrames rest)"

text \<open>
  The search as the specification words it: the nodes in depth-first document order
  (a node, then the subtree of each child in turn), and a scan of that list that stops
  at the first node whose predicate holds, taking a failed evaluation as "no match".
\<close>

fun preorder :: "frame \<Rightarrow> nat list"
and preorder_list :: "frame list \<Rightarrow> nat list" where
  "preorder (Frame fid children) = fid # preorder_list children"
| "preorder_list [] = []"
| "preorder_list (c # cs) = preorder c @ preorder_list cs"

fun first_match :: "nat list \<Rightarrow> bool io" where
  "first_match [] = io_return False"
| "first_match (fid # rest) =
     io_bind (io_catch (remote (FrameEvaluate fid ClickStartPuzzle) bool_result)
                       (\<lambda>error. io_return False)) (\<lambda>m.
       if m then io_return True else first_match rest)"

text \<open>The predicate at a node, as the browser answers it after history \<open>h\<close>: the
  evaluation does not fail and yields true.\<close>

definition matches_at :: "browser_env \<Rightarrow> trace \<Rightarrow> nat \<Rightarrow> bool" where
  "matches_at env h fid =
     (throws env (h @ [FrameEvaluate fid ClickStartPuzzle]) = None
      \<and> bool_result env (h @ [FrameEvaluate fid ClickStartPuzzle]))"

definition evaluations :: "nat list \<Rightarrow> trace" where
  "evaluations fids = map (\<lambda>fid. FrameEvaluate fid ClickStartPuzzle) fids"

section \<open>Puzzle tiles and the Artifact Relay\<close>

definition downloadPuzzlePiece :: "nat \<Rightarrow> string \<Rightarrow> string \<Rightarrow> unit io" where
  "downloadPuzzlePiece br blobUrl sessionId =
     io_bind (remote (NewPage br) handle_result) (\<lambda>newPage.
     io_bind (remote (CreateCDPSession newPage) handle_result) (\<lambda>client.
     io_finally
       (io_catch
          (io_bind (remote (CdpSend client ''Page.enable'') no_result) (\<lambda>_.
           io_bind (remote (CdpSend client ''Page.setDownloadBehavior'') no_result) (\<lambda>_.
           io_bind (remote (Goto newPage blobUrl) no_result) (\<lambda>_.
           io_bind (remote (Evaluate newPage (DownloadLink sessionId)) no_result) (\<lambda>_.
           delay 2000)))))
          (\<lambda>error. io_return ()))
       (io_bind (remote (CdpDetach client) no_result) (\<lambda>_.
        remote (ClosePage newPage) no_result))))"

definition handlePuzzleTiles :: "frame \<Rightarrow> nat \<Rightarrow> string \<Rightarrow> bool io" where
  "handlePuzzleTiles f br sessionId =
     io_bind (remote (FrameEvaluate (frame_id f) TilesLengthIs6) bool_result) (\<lambda>tilesExist.
     io_bind (if tilesExist then
                io_bind (remote (FrameEvaluate (frame_id f) FirstTileBlobUrl) text_result)
                  (\<lambda>blobUrl.
                    if \<not> falsy blobUrl then downloadPuzzlePiece br (str_of blobUrl) sessionId
                    else io_return ())
              else io_return ()) (\<lambda>_.
     io_return False))"

lemma handlePuzzleTiles_not_true: "(Inr True, h') \<noteq> handlePuzzleTiles f br sessionId env h"
  by (auto simp: handlePuzzleTiles_def io_bind_def io_return_def split: prod.splits sum.splits)

section \<open>The challenge orchestrator (\<open>handleCaptchaChallenge\<close>)\<close>

text \<open>The function returns \<open>true\<close> or runs off its end.\<close>

datatype js_return = ReturnsTrue | ReturnsUndefined

text \<open>
  \<open>handleCaptchaChallenge\<close> and its loop \<open>for (const frame of allFrames)\<close>. Inside the
  \<open>tilesHandled\<close> branch everything stands in a \<open>try\<close> whose \<open>catch\<close> only logs and is
  followed by \<open>break\<close>, so an error there ends the function with no value. The branch
  for \<open>newChallengeCount >= 2\<close> first calls \<open>askQuestion\<close>, which no file of the
  repository defines: the call throws a ReferenceError before any page call, and the
  \<open>catch\<close> takes it. The function calls itself from that branch; it terminates because
  the branch is entered only when \<open>handlePuzzleTiles\<close> returns true.
\<close>

function handleCaptchaChallenge ::
    "nat \<Rightarrow> nat \<Rightarrow> string \<Rightarrow> nat \<Rightarrow> browser_env \<Rightarrow> trace \<Rightarrow> (string + js_return) \<times> trace"
and captcha_tiles_loop ::
    "nat \<Rightarrow> nat \<Rightarrow> string \<Rightarrow> nat \<Rightarrow> frame list \<Rightarrow> browser_env \<Rightarrow> trace
       \<Rightarrow> (string + js_return) \<times> trace"
where
  "handleCaptchaChallenge pg br sessionId challengeCount env h =
     (case io_bind (delay 5000) (\<lambda>_.
           io_bind (local_read (MainFrame pg) main_frame_result)
             findAndClickStartPuzzleButton) env h of
        (Inl e, h1) \<Rightarrow> (Inl e, h1)
      | (Inr buttonFound, h1) \<Rightarrow>
          if buttonFound then
            (case io_bind (delay 2000) (\<lambda>_. local_read (Frames pg) frames_result) env h1 of
               (Inl e, h2) \<Rightarrow> (Inl e, h2)
             | (Inr allFrames, h2) \<Rightarrow>
                 captcha_tiles_loop pg br sessionId challengeCount allFrames env h2)
          else (Inr ReturnsTrue, h1))"
| "captcha_tiles_loop pg br sessionId challengeCount [] env h = (Inr ReturnsUndefined, h)"
| "captcha_tiles_loop pg br sessionId challengeCount (f # fs) env h =
     (case handlePuzzleTiles f br sessionId env h of
        (Inl e, h1) \<Rightarrow> (Inl e, h1)
      | (Inr tilesHandled, h1) \<Rightarrow>
          if tilesHandled then
            (let h2 = h1 @ [Url pg]; currentUrl = url_result env h2 in
             case remote (WaitForUrlChange pg currentUrl) no_result env h2 of
               (Inl error, h3) \<Rightarrow> (Inr ReturnsUndefined, h3)
             | (Inr _, h3) \<Rightarrow>
                 (let h4 = h3 @ [Url pg]; newUrl = url_result env h4;
                      newChallengeCount = challengeCount + 1 in
                  if newChallengeCount \<ge> 2 then (Inr ReturnsUndefined, h4)
                  else
                    (case handleCaptchaChallenge pg br sessionId newChallengeCount env h4 of
                       (Inl error, h5) \<Rightarrow> (Inr ReturnsUndefined, h5)
                     | (Inr r, h5) \<Rightarrow> (Inr r, h5))))
          else captcha_tiles_loop pg br sessionId challengeCount fs env h1)"
  by pat_completeness auto
termination
  by (relation "measures [\<lambda>x. case x of Inl _ \<Rightarrow> 1 | Inr _ \<Rightarrow> 0,
                          \<lambda>x. case x of Inl _ \<Rightarrow> 0 | Inr (_, _, _, _, fs, _, _) \<Rightarrow> length fs]")
     (auto simp: handlePuzzleTiles_not_true)

section \<open>Tile selection (\<open>/api/linkedin/select-tile\<close>, app3.js)\<close>

text \<open>
  The body of \<open>if (clicked) { ... }\<close>: the completion check after a tile click. It
  returns \<open>Some r\<close> when the handler returns with response \<open>r\<close>, and \<open>None\<close> when control
  falls through to the next frame of the loop.
\<close>

definition completion_check :: "nat \<Rightarrow> response option io" where
  "completion_check pg =
     io_bind (local_read (Url pg) url_result) (\<lambda>currentUrl.
     io_catch
       (io_bind (remote (Race pg [NavigationSignal 10000, NetworkIdleSignal 10000, TimerSignal 10000])
                   no_result) (\<lambda>_.
        io_bind (delay 2000) (\<lambda>_.
        io_bind (local_read (Url pg) url_result) (\<lambda>newUrl.
        if newUrl \<noteq> currentUrl then
          if includes_str newUrl ''/login-challenge-submit''
          then io_return (Some (Response 200 (SendText ''lastcve'')))
          else io_bind (remote (Evaluate pg HeaderText) text_result) (\<lambda>headerText.
               io_return (Some (send_nullable headerText)))
        else io_return None))))
       (\<lambda>error.
        io_bind (local_read (Url pg) url_result) (\<lambda>_.
        io_bind (local_read (Url pg) url_result) (\<lambda>finalUrl.
        if includes_str finalUrl ''/login-challenge-submit''
        then io_return (Some (Response 200 (SendText ''lastcve'')))
        else io_return None))))"

text \<open>\<open>for (const frame of allFrames) { ... }\<close>\<close>

fun select_tile_frames :: "nat \<Rightarrow> jsvalue \<Rightarrow> frame list \<Rightarrow> response option io" where
  "select_tile_frames pg tileNumber [] = io_return None"
| "select_tile_frames pg tileNumber (f # fs) =
     io_bind (remote (FrameEvaluate (frame_id f) (ClickTile tileNumber)) bool_result) (\<lambda>clicked.
       if clicked then
         io_bind (completion_check pg) (\<lambda>r.
           case r of
             Some resp \<Rightarrow> io_return (Some resp)
           | None \<Rightarrow> select_tile_frames pg tileNumber fs)
       else select_tile_frames pg tileNumber fs)"

definition select_tile ::
  "string option \<Rightarrow> jsvalue \<Rightarrow> sessions \<Rightarrow> browser_env \<Rightarrow> trace \<Rightarrow> response \<times> sessions \<times> trace" where
  "select_tile sessionId tileNumber ss env h =
     (if falsy sessionId then (Response 400 (JsonError ''Session ID is required''), ss, h)
      else if invalid_tile tileNumber
        then (Response 400 (JsonError ''Valid tile number (1-6) is required''), ss, h)
      else case sessions_get ss (str_of sessionId) of
        Absent \<Rightarrow> (Response 400 (JsonError ''Session not found''), ss, h)
      | found \<Rightarrow>
         (case with_page found ''frames'' (\<lambda>pg.
                 io_bind (local_read (Frames pg) frames_result) (\<lambda>allFrames.
                 select_tile_frames pg tileNumber allFrames)) env h of
            (Inl e, h') \<Rightarrow> (Response 500 (JsonError ''Failed to select tile''), ss, h')
          | (Inr (Some r), h') \<Rightarrow> (r, ss, h')
          | (Inr None, h') \<Rightarrow> (Response 404 (JsonError ''No puzzle tiles found''), ss, h')))"

section \<open>Fetching the challenge controls (\<open>/api/linkedin/security-verification\<close>)\<close>

text \<open>\<open>frame.url()\<close> is read for the log before each evaluation, and once more when
  tiles are found.\<close>

fun tiles_in_frames :: "frame list \<Rightarrow> response option io" where
  "tiles_in_frames [] = io_return None"
| "tiles_in_frames (f # fs) =
     io_bind (local_read (FrameUrl (frame_id f)) no_result) (\<lambda>_.
     io_bind (remote (FrameEvaluate (frame_id f) TilesOuterHtml) tiles_result) (\<lambda>tilesHtml.
       case tilesHtml of
         Some tiles \<Rightarrow>
           io_bind (local_read (FrameUrl (frame_id f)) no_result) (\<lambda>_.
           io_return (Some (Response 200 (JsonTiles tiles))))
       | None \<Rightarrow> tiles_in_frames fs))"

definition security_verification ::
  "string option \<Rightarrow> sessions \<Rightarrow> browser_env \<Rightarrow> trace \<Rightarrow> response \<times> sessions \<times> trace" where
  "security_verification sessionId ss env h =
     (if falsy sessionId then (Response 400 (SendText ''Session ID is required''), ss, h)
      else case sessions_get ss (str_of sessionId) of
        Absent \<Rightarrow> (Response 400 (SendText ''Session not found''), ss, h)
      | found \<Rightarrow>
         (case with_page found ''frames'' (\<lambda>pg.
                 io_bind (local_read (Frames pg) frames_result) tiles_in_frames) env h of
            (Inl e, h') \<Rightarrow> (Response 500 (JsonError (''Failed to get puzzle tiles: '' @ e)), ss, h')
          | (Inr (Some r), h') \<Rightarrow> (r, ss, h')
          | (Inr None, h') \<Rightarrow> (Response 404 (JsonError ''No puzzle tiles found''), ss, h')))"

section \<open>One-time codes (\<open>/api/linkedin/verify-code\<close>, \<open>/api/linkedin/verify-sms\<close>)\<close>

text \<open>
  The \<open>try\<close> block of both handlers: the same statements in both (\<open>verify-sms\<close> also
  logs when the address contains \<open>feed\<close>). The rejection of \<open>waitForNavigation\<close> is
  swallowed by its own \<open>.catch(() => {})\<close>.
\<close>

definition pin_submission :: "nat \<Rightarrow> string \<Rightarrow> response io" where
  "pin_submission pg code =
     io_bind (remote (WaitForSelector pg SelPinInput) no_result) (\<lambda>_.
     io_bind (remote (WaitForSelector pg SelSubmitButton) no_result) (\<lambda>_.
     io_bind (remote (Evaluate pg ClearPinInput) no_result) (\<lambda>_.
     io_bind (remote (TypeText pg SelPinInput code) no_result) (\<lambda>_.
     io_bind (io_both (io_catch (remote (WaitForNavigation pg) no_result) (\<lambda>_. io_return ()))
                      (remote (Click pg SelSubmitButton) no_result)) (\<lambda>_.
     io_bind (delay 2000) (\<lambda>_.
     io_bind (remote (Evaluate pg HasErrorBanner) bool_result) (\<lambda>hasError.
     if hasError
     then io_return (Response 400 (SendText ''Invalid verification code. Please try again.''))
     else io_bind (local_read (Url pg) url_result) (\<lambda>currentUrl.
          if includes_str currentUrl ''/login-challenge-submit''
          then io_return (Response 200 (SendText ''lastcve''))
          else io_return (Response 200 (SendText ''1''))))))))))"

definition verify_code ::
  "string option \<Rightarrow> string option \<Rightarrow> sessions \<Rightarrow> browser_env \<Rightarrow> trace
     \<Rightarrow> response \<times> sessions \<times> trace" where
  "verify_code code sessionId ss env h =
     (if falsy sessionId then (Response 400 (JsonError ''Session ID is required''), ss, h)
      else if falsy code then (Response 400 (JsonError ''Verification code is required''), ss, h)
      else case sessions_get ss (str_of sessionId) of
        Absent \<Rightarrow> (Response 400 (JsonError ''Session not found''), ss, h)
      | found \<Rightarrow>
         (case with_page found ''waitForSelector'' (\<lambda>pg. pin_submission pg (str_of code)) env h of
            (Inl e, h') \<Rightarrow> (Response 500 (JsonError ''Failed to submit verification code''), ss, h')
          | (Inr r, h') \<Rightarrow> (r, ss, h')))"

definition verify_sms ::
  "string option \<Rightarrow> string option \<Rightarrow> sessions \<Rightarrow> browser_env \<Rightarrow> trace
     \<Rightarrow> response \<times> sessions \<times> trace" where
  "verify_sms code sessionId ss env h =
     (if falsy sessionId then (Response 400 (JsonError ''Session ID is required''), ss, h)
      else if falsy code then (Response 400 (JsonError ''Verification code is required''), ss, h)
      else case sessions_get ss (str_of sessionId) of
        Absent \<Rightarrow> (Response 400 (JsonError ''Session not found''), ss, h)
      | found \<Rightarrow>
         (case with_page found ''waitForSelector'' (\<lambda>pg. pin_submission pg (str_of code)) env h of
            (Inl e, h') \<Rightarrow> (Response 500 (JsonError ''Failed to submit verification code''), ss, h')
          | (Inr r, h') \<Rightarrow> (r, ss, h')))"

section \<open>Phone numbers (\<open>/api/linkedin/verify-phone\<close>, \<open>/api/linkedin/update-phone\<close>)\<close>

text \<open>The statements both handlers share: fill in the form, submit it and read the
  error banner.\<close>

definition phone_form :: "nat \<Rightarrow> string \<Rightarrow> string \<Rightarrow> bool io" where
  "phone_form pg phone countryCode =
     io_bind (remote (WaitForSelector pg SelPhoneCountry) no_result) (\<lambda>_.
     io_bind (remote (WaitForSelector pg SelPhoneNumber) no_result) (\<lambda>_.
     io_bind (remote (WaitForSelector pg SelPhoneSubmit) no_result) (\<lambda>_.
     io_bind (remote (SelectOption pg SelPhoneCountry countryCode) no_result) (\<lambda>_.
     io_bind (remote (Evaluate pg ClearPhoneInput) no_result) (\<lambda>_.
     io_bind (remote (TypeText pg SelPhoneNumber phone) no_result) (\<lambda>_.
     io_bind (io_both (io_catch (remote (WaitForNavigation pg) no_result) (\<lambda>_. io_return ()))
                      (remote (Click pg SelPhoneSubmit) no_result)) (\<lambda>_.
     io_bind (delay 2000) (\<lambda>_.
     remote (Evaluate pg HasErrorBanner) bool_result))))))))"

definition verify_phone_body :: "nat \<Rightarrow> string \<Rightarrow> string \<Rightarrow> response io" where
  "verify_phone_body pg phone countryCode =
     io_bind (phone_form pg phone countryCode) (\<lambda>hasError.
     if hasError then
       io_bind (remote (Evaluate pg ErrorSpanText) message_result) (\<lambda>errorMessage.
       io_return (Response 400 (SendText errorMessage)))
     else
       io_bind (local_read (Url pg) url_result) (\<lambda>currentUrl.
       if includes_str currentUrl ''/login-challenge-submit''
       then io_return (Response 200 (SendText ''lastcve''))
       else
         io_bind (remote (Evaluate pg HeaderText) text_result) (\<lambda>headerText.
         if \<not> falsy headerText \<and> includes_str (str_of headerText) ''verify your phone number''
         then io_return (Response 200 (SendText (''Let'' @ [CHR 0x27] @ ''s verify your phone number'')))
         else io_return (Response 200 (SendText ''1'')))))"

definition verify_phone ::
  "string option \<Rightarrow> string option \<Rightarrow> string option \<Rightarrow> sessions \<Rightarrow> browser_env \<Rightarrow> trace
     \<Rightarrow> response \<times> sessions \<times> trace" where
  "verify_phone phone countryCode sessionId ss env h =
     (if falsy sessionId then (Response 400 (JsonError ''Session ID is required''), ss, h)
      else if falsy phone then (Response 400 (JsonError ''Phone number is required''), ss, h)
      else if falsy countryCode then (Response 400 (JsonError ''Country code is required''), ss, h)
      else case sessions_get ss (str_of sessionId) of
        Absent \<Rightarrow> (Response 400 (JsonError ''Session not found''), ss, h)
      | found \<Rightarrow>
         (case with_page found ''waitForSelector''
                 (\<lambda>pg. verify_phone_body pg (str_of phone) (str_of countryCode))
                 env h of
            (Inl e, h') \<Rightarrow> (Response 500 (JsonError ''Failed to submit phone number''), ss, h')
          | (Inr r, h') \<Rightarrow> (r, ss, h')))"

definition update_phone_body :: "nat \<Rightarrow> string \<Rightarrow> string \<Rightarrow> response io" where
  "update_phone_body pg phone countryCode =
     io_bind (phone_form pg phone countryCode) (\<lambda>hasError.
     if hasError then
       io_bind (remote (Evaluate pg ErrorSpanText) message_result) (\<lambda>errorMessage.
       io_return (Response 400 (JsonError errorMessage)))
     else
       io_bind (local_read (Url pg) url_result) (\<lambda>currentUrl.
       if includes_str currentUrl ''/login-challenge-submit''
       then io_return (Response 200 (JsonRedirect ''lastcve''))
       else io_return (Response 200 JsonSuccess)))"

definition update_phone ::
  "string option \<Rightarrow> string option \<Rightarrow> string option \<Rightarrow> sessions \<Rightarrow> browser_env \<Rightarrow> trace
     \<Rightarrow> response \<times> sessions \<times> trace" where
  "update_phone phone countryCode sessionId ss env h =
     (if falsy sessionId then (Response 400 (JsonError ''Session ID is required''), ss, h)
      else if falsy phone then (Response 400 (JsonError ''Phone number is required''), ss, h)
      else if falsy countryCode then (Response 400 (JsonError ''Country code is required''), ss, h)
      else case sessions_get ss (str_of sessionId) of
        Absent \<Rightarrow> (Response 400 (JsonError ''Session not found''), ss, h)
      | found \<Rightarrow>
         (case with_page found ''waitForSelector''
                 (\<lambda>pg. update_phone_body pg (str_of phone) (str_of countryCode))
                 env h of
            (Inl e, h') \<Rightarrow> (Response 500 (JsonError ''Failed to update phone number''), ss, h')
          | (Inr r, h') \<Rightarrow> (r, ss, h')))"

section \<open>The phone form of the client (\<open>handleSubmit\<close>)\<close>

text \<open>
  In the browser a string is a sequence of UTF-16 code units, and \<open>.length\<close> counts
  them. \<open>String.prototype.trim\<close> strips from both ends the code units that are
  WhiteSpace or LineTerminator in ECMAScript: tab, line feed, vertical tab, form feed,
  carriage return, space, U+00A0, U+1680, U+2000 to U+200A, U+2028, U+2029, U+202F,
  U+205F, U+3000 and U+FEFF.
\<close>

type_synonym js_string = "16 word list"

definition is_space :: "16 word \<Rightarrow> bool" where
  "is_space u =
     (u \<in> set [0x09, 0x0A, 0x0B, 0x0C, 0x0D, 0x20, 0xA0, 0x1680, 0x2028, 0x2029, 0x202F,
               0x205F, 0x3000, 0xFEFF]
      \<or> (0x2000 \<le> u \<and> u \<le> 0x200A))"

definition trim :: "js_string \<Rightarrow> js_string" where
  "trim s = rev (dropWhile is_space (rev (dropWhile is_space s)))"

text \<open>
  The strings of the server's handlers are byte strings in this development. A string
  of the client reaches them in the request body as its UTF-8 encoding: a surrogate
  pair is one code point of four bytes, any other code unit is a code point of its own.
\<close>

definition utf8_code_point :: "nat \<Rightarrow> string" where
  "utf8_code_point n =
     (if n < 0x80 then [char_of n]
      else if n < 0x800 then [char_of (0xC0 + n div 0x40), char_of (0x80 + n mod 0x40)]
      else if n < 0x10000
        then [char_of (0xE0 + n div 0x1000), char_of (0x80 + n div 0x40 mod 0x40),
              char_of (0x80 + n mod 0x40)]
      else [char_of (0xF0 + n div 0x40000), char_of (0x80 + n div 0x1000 mod 0x40),
            char_of (0x80 + n div 0x40 mod 0x40), char_of (0x80 + n mod 0x40)])"

fun utf8 :: "js_string \<Rightarrow> string" where
  "utf8 [] = []"
| "utf8 [u] = utf8_code_point (unat u)"
| "utf8 (hi # lo # us) =
     (if 0xD800 \<le> hi \<and> hi \<le> 0xDBFF \<and> 0xDC00 \<le> lo \<and> lo \<le> 0xDFFF
      then utf8_code_point (0x10000 + (unat hi - 0xD800) * 0x400 + (unat lo - 0xDC00)) @ utf8 us
      else utf8_code_point (unat hi) @ utf8 (lo # us))"

datatype client_outcome =
    ShowsError string   \<comment> \<open>\<open>showError(message)\<close>\<close>
  | Redirects           \<comment> \<open>\<open>window.location.href = "/"\<close>\<close>

text \<open>
  \<open>handleSubmit\<close> reads the form and the \<open>sessionId\<close> parameter of the page's address
  (null when there is none), validates the phone number, and only then sends the
  request to \<open>/api/linkedin/update-phone\<close>; the server's handler runs as part of the
  \<open>fetch\<close>. \<open>response.ok\<close> is a status from 200 to 299.
\<close>

definition handleSubmit ::
  "js_string \<Rightarrow> js_string \<Rightarrow> js_string option \<Rightarrow> sessions \<Rightarrow> browser_env \<Rightarrow> trace
     \<Rightarrow> client_outcome \<times> sessions \<times> trace" where
  "handleSubmit phoneInput countrySelect sessionId ss env h =
     (let phone = trim phoneInput in
      if phone = [] then (ShowsError ''Please enter a phone number'', ss, h)
      else if length phone < 10 then (ShowsError ''Please enter a valid phone number'', ss, h)
      else
        (case update_phone (Some (utf8 phone)) (Some (utf8 countrySelect))
                (map_option utf8 sessionId) ss env h of
           (Response st b, ss', h') \<Rightarrow>
             if \<not> (200 \<le> st \<and> st \<le> 299)
             then (ShowsError ''An error occurred. Please try again.'', ss', h')
             else (case b of
                     JsonError msg \<Rightarrow>
                       if msg \<noteq> [] then (ShowsError msg, ss', h') else (Redirects, ss', h')
                   | _ \<Rightarrow> (Redirects, ss', h'))))"

section \<open>Polling the login status (\<open>/api/linkedin/check-login-status\<close>)\<close>

definition check_login_status ::
  "string option \<Rightarrow> sessions \<Rightarrow> browser_env \<Rightarrow> trace \<Rightarrow> response \<times> sessions \<times> trace" where
  "check_login_status sessionId ss env h =
     (if falsy sessionId then (Response 200 (SendText ''0''), ss, h)
      else case sessions_get ss (str_of sessionId) of
        Absent \<Rightarrow> (Response 200 (SendText ''0''), ss, h)
      | found \<Rightarrow>
         (case with_page found ''url'' (\<lambda>pg.
                 io_bind (local_read (Url pg) url_result) (\<lambda>currentUrl.
                 if includes_str currentUrl ''feed''
                 then io_return (Response 200 (SendText ''1''))
                 else
                   io_catch
                     (io_bind (remote (Evaluate pg HeaderText) text_result) (\<lambda>headerText.
                      io_return (Response 200
                        (SendText (if falsy headerText then ''0'' else str_of headerText)))))
                     (\<lambda>message.
                        if includes_str message ''Execution context was destroyed''
                        then io_return (Response 200 (SendText ''1''))
                        else io_throw message))) env h of
            (Inl e, h') \<Rightarrow> (Response 200 (SendText ''0''), ss, h')
          | (Inr r, h') \<Rightarrow> (r, ss, h')))"

section \<open>Artifact availability (\<open>/api/check-puzzle-image\<close>)\<close>

definition check_puzzle_image ::
  "string option \<Rightarrow> sessions \<Rightarrow> browser_env \<Rightarrow> trace \<Rightarrow> response \<times> sessions \<times> trace" where
  "check_puzzle_image sessionId ss env h =
     (Response 200
        (JsonExists (file_exists env h
           (''puzzle_piece_'' @ (case sessionId of None \<Rightarrow> ''undefined'' | Some s \<Rightarrow> s) @ ''.png''))),
      ss, h)"

section \<open>Credential submission (\<open>/api/linkedin/login\<close>)\<close>

text \<open>The statements both versions of the handler share: open a browser and a page,
  go to the login form and type the credentials.\<close>

definition enter_credentials :: "string \<Rightarrow> string \<Rightarrow> (nat \<times> nat) io" where
  "enter_credentials email password =
     io_bind (remote Launch handle_result) (\<lambda>br.
     io_bind (remote (NewPage br) handle_result) (\<lambda>pg.
     io_bind (remote (SetUserAgent pg) no_result) (\<lambda>_.
     io_bind (remote (Goto pg ''https://www.linkedin.com/login'') no_result) (\<lambda>_.
     io_bind (remote (WaitForSelector pg SelUsername) no_result) (\<lambda>_.
     io_bind (remote (WaitForSelector pg SelPassword) no_result) (\<lambda>_.
     io_bind (remote (TypeText pg SelUsername email) no_result) (\<lambda>_.
     io_bind (remote (TypeText pg SelPassword password) no_result) (\<lambda>_.
     io_return (br, pg)))))))))"

text \<open>\<open>if (!sessionId) sessionId = uuidv4()\<close>\<close>

definition session_id_for :: "string option \<Rightarrow> browser_env \<Rightarrow> trace \<Rightarrow> string" where
  "session_id_for sessionId env h = (if falsy sessionId then uuid_result env h else str_of sessionId)"

text \<open>
  app3.js. The handler is an async function: between two awaits it runs alone, at an
  await other handlers may run. It is given in two parts. The first runs from the
  arrival of the request to the await of the click on the login button: the checks,
  among them the test of \<open>sessions[sessionId]\<close>, and the browser calls. It ends with a
  response, or with the session id and the two handles.
\<close>

definition login_until_click ::
  "string option \<Rightarrow> string option \<Rightarrow> string \<Rightarrow> sessions \<Rightarrow> browser_env \<Rightarrow> trace
     \<Rightarrow> (response + string \<times> nat \<times> nat) \<times> trace" where
  "login_until_click sessionId email password ss env h =
     (if falsy email then (Inl (Response 400 (SendText ''Email is required'')), h)
      else let sid = session_id_for sessionId env h in
        if sessions_get ss sid \<noteq> Absent
        then (Inl (Response 400 (SendText ''Session already exists'')), h)
        else
          (case io_bind (enter_credentials (str_of email) password) (\<lambda>(br, pg).
                io_bind (remote (Click pg SelLoginButton) no_result) (\<lambda>_.
                io_return (br, pg))) env h of
             (Inl err, h') \<Rightarrow> (Inl (Response 500 (SendErr err)), h')
           | (Inr (br, pg), h') \<Rightarrow> (Inr (sid, br, pg), h')))"

text \<open>How the promise of an async handler settles.\<close>

datatype settlement = Fulfilled | Rejected

text \<open>
  The second part runs once the click has resolved, on the registry as it is then: the
  session is written to the registry, \<open>"1"\<close> is sent, and the challenge flow runs after
  the response. If the flow throws, the \<open>catch\<close> calls \<open>res.status(500).send(err)\<close> on a
  response that is already sent; that call throws inside the \<open>catch\<close>, so the client
  keeps its \<open>"1"\<close> and the handler's promise is rejected with nothing to handle it.
\<close>

definition login_after_click ::
  "string \<Rightarrow> nat \<Rightarrow> nat \<Rightarrow> sessions \<Rightarrow> browser_env \<Rightarrow> trace
     \<Rightarrow> (response \<times> sessions \<times> trace) \<times> settlement" where
  "login_after_click sid br pg ss env h =
     (case io_bind (delay 10000) (\<lambda>_. handleCaptchaChallenge pg br sid 0) env h of
        (Inl err, h') \<Rightarrow>
          ((Response 200 (SendText ''1''), ss(sid \<mapsto> \<lparr>browser = br, page = pg\<rparr>), h'), Rejected)
      | (Inr _, h') \<Rightarrow>
          ((Response 200 (SendText ''1''), ss(sid \<mapsto> \<lparr>browser = br, page = pg\<rparr>), h'), Fulfilled))"

text \<open>A login request served with no other request in between.\<close>

definition login ::
  "string option \<Rightarrow> string option \<Rightarrow> string \<Rightarrow> sessions \<Rightarrow> browser_env \<Rightarrow> trace
     \<Rightarrow> (response \<times> sessions \<times> trace) \<times> settlement" where
  "login sessionId email password ss env h =
     (case login_until_click sessionId email password ss env h of
        (Inl r, h') \<Rightarrow> ((r, ss, h'), Fulfilled)
      | (Inr (sid, br, pg), h') \<Rightarrow> login_after_click sid br pg ss env h')"

text \<open>
  Two login requests A and B whose handlers overlap: B arrives while A is suspended at
  the await of its click, so B's first part runs on the registry A has not yet written
  to. Then A's click resolves and A runs to its end, then B does. (One of the orders in
  which the event loop can run the two handlers.) The result is A's response, B's
  response, the registry and the history.
\<close>

definition login_overlapping ::
  "string option \<Rightarrow> string option \<Rightarrow> string \<Rightarrow> string option \<Rightarrow> string option \<Rightarrow> string
     \<Rightarrow> sessions \<Rightarrow> browser_env \<Rightarrow> trace \<Rightarrow> response \<times> response \<times> sessions \<times> trace" where
  "login_overlapping sessionIdA emailA passwordA sessionIdB emailB passwordB ss env h =
     (case login_until_click sessionIdA emailA passwordA ss env h of
        (Inl rA, h1) \<Rightarrow>
          (case login sessionIdB emailB passwordB ss env h1 of
             ((rB, ss', h2), _) \<Rightarrow> (rA, rB, ss', h2))
      | (Inr (sidA, brA, pgA), h1) \<Rightarrow>
          (case login_until_click sessionIdB emailB passwordB ss env h1 of
             (Inl rB, h2) \<Rightarrow>
               (case login_after_click sidA brA pgA ss env h2 of
                  ((rA, ss', h3), _) \<Rightarrow> (rA, rB, ss', h3))
           | (Inr (sidB, brB, pgB), h2) \<Rightarrow>
               (case login_after_click sidA brA pgA ss env h2 of
                  ((rA, ssA, h3), _) \<Rightarrow>
                    (case login_after_click sidB brB pgB ssA env h3 of
                       ((rB, ssB, h4), _) \<Rightarrow> (rA, rB, ssB, h4)))))"

text \<open>
  app2.js: the handler waits for the navigation the click starts, looks for the
  password error, and answers \<open>"0"\<close> if it is there; otherwise it registers the session
  and runs the challenge flow before it answers \<open>"1"\<close>.
\<close>

definition login_app2 ::
  "string option \<Rightarrow> string option \<Rightarrow> string \<Rightarrow> sessions \<Rightarrow> browser_env \<Rightarrow> trace
     \<Rightarrow> response \<times> sessions \<times> trace" where
  "login_app2 sessionId email password ss env h =
     (if falsy email then (Response 400 (SendText ''Email is required''), ss, h)
      else let sid = session_id_for sessionId env h in
        if sessions_get ss sid \<noteq> Absent
        then (Response 400 (SendText ''Session already exists''), ss, h)
        else
          (case io_bind (enter_credentials (str_of email) password) (\<lambda>(br, pg).
                io_bind (io_both (remote (WaitForNavigation pg) no_result)
                                 (remote (Click pg SelLoginButton) no_result)) (\<lambda>_.
                io_bind (remote (QueryHandle pg SelPasswordError) bool_result) (\<lambda>passwordError.
                io_return (br, pg, passwordError)))) env h of
             (Inl err, h') \<Rightarrow> (Response 500 (SendErr err), ss, h')
           | (Inr (br, pg, passwordError), h') \<Rightarrow>
               if passwordError then (Response 200 (SendText ''0''), ss, h')
               else
                 (case io_bind (delay 5000) (\<lambda>_. handleCaptchaChallenge pg br sid 0) env h' of
                    (Inl err, h'') \<Rightarrow>
                      (Response 500 (SendErr err), ss(sid \<mapsto> \<lparr>browser = br, page = pg\<rparr>), h'')
                  | (Inr _, h'') \<Rightarrow>
                      (Response 200 (SendText ''1''), ss(sid \<mapsto> \<lparr>browser = br, page = pg\<rparr>), h''))))"

section \<open>The routes of app3.js\<close>

datatype request =
    Login "string option" "string option" string           \<comment> \<open>sessionId, email, password\<close>
  | SecurityVerification "string option"                  \<comment> \<open>sessionId\<close>
  | SelectTile "string option" jsvalue                    \<comment> \<open>sessionId, tileNumber\<close>
  | VerifyCode "string option" "string option"            \<comment> \<open>code, sessionId\<close>
  | VerifySms "string option" "string option"             \<comment> \<open>code, sessionId\<close>
  | VerifyPhone "string option" "string option" "string option"  \<comment> \<open>phone, countryCode, sessionId\<close>
  | UpdatePhone "string option" "string option" "string option"  \<comment> \<open>phone, countryCode, sessionId\<close>
  | CheckLoginStatus "string option"                      \<comment> \<open>sessionId\<close>
  | CheckPuzzleImage "string option"                      \<comment> \<open>sessionId\<close>

text \<open>
  Every handler but \<open>login\<close> sends its response as its last step, inside its \<open>try\<close> or
  its \<open>catch\<close>, so its promise is fulfilled.
\<close>

fun route ::
  "request \<Rightarrow> sessions \<Rightarrow> browser_env \<Rightarrow> trace \<Rightarrow> (response \<times> sessions \<times> trace) \<times> settlement" where
  "route (Login sessionId email password) ss env h = login sessionId email password ss env h"
| "route (SecurityVerification sessionId) ss env h =
     (security_verification sessionId ss env h, Fulfilled)"
| "route (SelectTile sessionId tileNumber) ss env h =
     (select_tile sessionId tileNumber ss env h, Fulfilled)"
| "route (VerifyCode code sessionId) ss env h = (verify_code code sessionId ss env h, Fulfilled)"
| "route (VerifySms code sessionId) ss env h = (verify_sms code sessionId ss env h, Fulfilled)"
| "route (VerifyPhone phone countryCode sessionId) ss env h =
     (verify_phone phone countryCode sessionId ss env h, Fulfilled)"
| "route (UpdatePhone phone countryCode sessionId) ss env h =
     (update_phone phone countryCode sessionId ss env h, Fulfilled)"
| "route (CheckLoginStatus sessionId) ss env h = (check_login_status sessionId ss env h, Fulfilled)"
| "route (CheckPuzzleImage sessionId) ss env h = (check_puzzle_image sessionId ss env h, Fulfilled)"

text \<open>
  What the Node.js process does with a rejected promise that nothing handles
  (\<open>--unhandled-rejections\<close>): it ends with an uncaught exception (\<open>throw\<close>, the default
  from Node.js 15 on) or prints a warning and goes on (\<open>warn\<close>, the behaviour before).
  The repository does not say which Node.js it runs on.
\<close>

datatype rejection_mode = ThrowMode | WarnMode

text \<open>
  Requests served one after the other, each to its end before the next arrives: the
  registry and the browser history after the last one, or \<open>None\<close> when the process has
  ended on the way (the registry lives in the process's memory).
\<close>

fun serve ::
  "rejection_mode \<Rightarrow> request list \<Rightarrow> sessions \<Rightarrow> browser_env \<Rightarrow> trace
     \<Rightarrow> (sessions \<times> trace) option" where
  "serve mode [] ss env h = Some (ss, h)"
| "serve mode (r # rs) ss env h =
     (case route r ss env h of
        ((_, ss', h'), settled) \<Rightarrow>
          if settled = Rejected \<and> mode = ThrowMode then None
          else serve mode rs ss' env h')"

section \<open>Which calls a computation makes\<close>

text \<open>\<open>appends_only P m\<close>: whatever the browser answers, \<open>m\<close> only adds calls to the
  history, and every call it adds satisfies \<open>P\<close>.\<close>

definition appends_only :: "(call \<Rightarrow> bool) \<Rightarrow> 'a io \<Rightarrow> bool" where
  "appends_only P m = (\<forall>env h. \<exists>new. snd (m env h) = h @ new \<and> list_all P new)"

text \<open>
  The calls by which \<open>handleCaptchaChallenge\<close> would go on after a solved puzzle: the
  reads of the address and the wait for its change (the \<open>tilesHandled\<close> branch), the
  pin entry of the verification-code step (\<open>waitForSelector\<close>, \<open>type\<close>, \<open>click\<close>), and
  \<open>page.mainFrame()\<close>, with which a further search round starts.
\<close>

fun next_step_call :: "call \<Rightarrow> bool" where
  "next_step_call (Url pg) = True"
| "next_step_call (WaitForUrlChange pg u) = True"
| "next_step_call (WaitForSelector pg sel) = True"
| "next_step_call (TypeText pg sel t) = True"
| "next_step_call (Click pg sel) = True"
| "next_step_call (MainFrame pg) = True"
| "next_step_call c = False"

text \<open>The calls of \<open>verify-code\<close> up to and including the read of the error banner.\<close>

definition pin_calls :: "nat \<Rightarrow> string \<Rightarrow> trace" where
  "pin_calls pg code =
     [WaitForSelector pg SelPinInput, WaitForSelector pg SelSubmitButton,
      Evaluate pg ClearPinInput, TypeText pg SelPinInput code,
      WaitForNavigation pg, Click pg SelSubmitButton, Evaluate pg HasErrorBanner]"

text \<open>
  The submission goes through: none of these calls fails, the wait for the navigation
  apart (the fifth call), whose rejection the handler swallows. This is a condition on
  the browser alone.
\<close>

definition pin_calls_succeed :: "browser_env \<Rightarrow> trace \<Rightarrow> nat \<Rightarrow> string \<Rightarrow> bool" where
  "pin_calls_succeed env h pg code =
     (\<forall>n \<in> set [1, 2, 3, 4, 6, 7]. throws env (h @ take n (pin_calls pg code)) = None)"

text \<open>The calls of \<open>verify-phone\<close> and \<open>update-phone\<close> up to and including the read of
  the error banner.\<close>

definition phone_calls :: "nat \<Rightarrow> string \<Rightarrow> string \<Rightarrow> trace" where
  "phone_calls pg phone countryCode =
     [WaitForSelector pg SelPhoneCountry, WaitForSelector pg SelPhoneNumber,
      WaitForSelector pg SelPhoneSubmit, SelectOption pg SelPhoneCountry countryCode,
      Evaluate pg ClearPhoneInput, TypeText pg SelPhoneNumber phone,
      WaitForNavigation pg, Click pg SelPhoneSubmit, Evaluate pg HasErrorBanner]"

text \<open>The calls both login handlers make up to and including the typing of the
  password, for the browser and page handles the environment hands out.\<close>

definition login_calls :: "nat \<Rightarrow> nat \<Rightarrow> string \<Rightarrow> string \<Rightarrow> trace" where
  "login_calls br pg email password =
     [Launch, NewPage br, SetUserAgent pg, Goto pg ''https://www.linkedin.com/login'',
      WaitForSelector pg SelUsername, WaitForSelector pg SelPassword,
      TypeText pg SelUsername email, TypeText pg SelPassword password]"

text \<open>The three signals \<open>select-tile\<close> races after a click, each with a budget of
  10000 ms.\<close>

definition race_signals :: "signal list" where
  "race_signals = [NavigationSignal 10000, NetworkIdleSignal 10000, TimerSignal 10000]"

section \<open>Sample registries and environments\<close>

text \<open>Concrete inputs on which the theorems below are instantiated.\<close>

definition one_session :: sessions where
  "one_session = Map.empty(''s1'' \<mapsto> \<lparr>browser = 1, page = 2\<rparr>)"

text \<open>A browser in which nothing fails, nothing is found and the address stays put.\<close>

definition calm_env :: browser_env where
  "calm_env =
     \<lparr> throws = (\<lambda>h. None),
       handle_result = (\<lambda>h. length h),
       bool_result = (\<lambda>h. False),
       text_result = (\<lambda>h. None),
       message_result = (\<lambda>h. ''Invalid phone number. Please try again.''),
       url_result = (\<lambda>h. ''https://www.linkedin.com/checkpoint/challenge''),
       frames_result = (\<lambda>h. [Frame 0 [Frame 1 []], Frame 1 []]),
       main_frame_result = (\<lambda>h. Frame 0 [Frame 1 []]),
       tiles_result = (\<lambda>h. None),
       type_error = (\<lambda>m. ''Cannot read properties of undefined (reading '' @ [CHR 0x27] @ m
                            @ [CHR 0x27] @ '')''),
       file_exists = (\<lambda>h f. False),
       uuid_result = (\<lambda>h. ''generated-id'') \<rparr>"

text \<open>A frame tree in which frame 1 cannot be queried and frame 2 holds the start
  control.\<close>

definition nested_frames :: frame where
  "nested_frames = Frame 0 [Frame 1 [Frame 2 []], Frame 3 []]"

definition search_env :: browser_env where
  "search_env = calm_env
     \<lparr> throws := (\<lambda>h. if h \<noteq> [] \<and> last h = FrameEvaluate 1 ClickStartPuzzle
                     then Some ''frame detached'' else None),
       bool_result := (\<lambda>h. h \<noteq> [] \<and> last h = FrameEvaluate 2 ClickStartPuzzle) \<rparr>"

text \<open>A page whose main frame holds the start control and whose frame 1 shows six
  tiles, the first with a blob image.\<close>

definition puzzle_env :: browser_env where
  "puzzle_env = calm_env
     \<lparr> bool_result := (\<lambda>h. h \<noteq> [] \<and> (last h = FrameEvaluate 0 ClickStartPuzzle
                                      \<or> last h = FrameEvaluate 1 TilesLengthIs6)),
       text_result := (\<lambda>h. if h \<noteq> [] \<and> last h = FrameEvaluate 1 FirstTileBlobUrl
                          then Some ''blob:https://www.linkedin.com/8d1f'' else None) \<rparr>"

text \<open>The same page, on which the puzzle gets solved once the tile image has been
  relayed: from then on the address is a new one.\<close>

definition solved_env :: browser_env where
  "solved_env = puzzle_env
     \<lparr> url_result := (\<lambda>h. if list_ex (\<lambda>c. case c of ClosePage p \<Rightarrow> True | _ \<Rightarrow> False) h
                         then ''https://www.linkedin.com/checkpoint/challenge/verify''
                         else ''https://www.linkedin.com/checkpoint/challenge'') \<rparr>"

text \<open>A page that shows the error banner after a code is submitted.\<close>

definition rejecting_env :: browser_env where
  "rejecting_env = calm_env \<lparr> bool_result := (\<lambda>h. h \<noteq> [] \<and> last h = Evaluate 2 HasErrorBanner) \<rparr>"

text \<open>A page that has moved to the dead-end address after a code is submitted, and a
  page on which the submit button cannot be clicked.\<close>

definition dead_end_env :: browser_env where
  "dead_end_env = calm_env
     \<lparr> url_result := (\<lambda>h. ''https://www.linkedin.com/checkpoint/lg/login-challenge-submit'') \<rparr>"

definition stuck_env :: browser_env where
  "stuck_env = calm_env
     \<lparr> throws := (\<lambda>h. if h \<noteq> [] \<and> last h = Click 2 SelSubmitButton
                     then Some ''Node is either not clickable or not an Element'' else None) \<rparr>"

text \<open>A page with the start control whose frames are gone when the tiles are looked
  for.\<close>

definition detaching_env :: browser_env where
  "detaching_env = calm_env
     \<lparr> bool_result := (\<lambda>h. h \<noteq> [] \<and> last h = FrameEvaluate 0 ClickStartPuzzle),
       throws := (\<lambda>h. case rev h of
                        FrameEvaluate f TilesLengthIs6 # _ \<Rightarrow> Some ''frame got detached''
                      | _ \<Rightarrow> None) \<rparr>"

text \<open>A login page that shows the password error whenever it is looked for.\<close>

definition wrong_password_env :: browser_env where
  "wrong_password_env = calm_env
     \<lparr> bool_result := (\<lambda>h. case rev h of
                           QueryHandle pg sel # _ \<Rightarrow> sel = SelPasswordError
                         | _ \<Rightarrow> False) \<rparr>"

text \<open>
  A page with the tiles in frame 1 whose address is \<open>.../checkpoint/challenge\<close>, is
  \<open>.../checkpoint/interstitial\<close> when read right after the click on a tile, and is
  \<open>.../checkpoint/challenge\<close> again afterwards.
\<close>

definition bounce_env :: browser_env where
  "bounce_env = calm_env
     \<lparr> bool_result := (\<lambda>h. h \<noteq> [] \<and> last h = FrameEvaluate 1 (ClickTile (JNumber (Finite 3)))),
       url_result := (\<lambda>h. case rev h of
                          Url pg # FrameEvaluate f (ClickTile n) # _ \<Rightarrow>
                            if f = 1 then ''https://www.linkedin.com/checkpoint/interstitial''
                            else ''https://www.linkedin.com/checkpoint/challenge''
                        | _ \<Rightarrow> ''https://www.linkedin.com/checkpoint/challenge''),
       text_result := (\<lambda>h. Some ''Quick security check'') \<rparr>"

section \<open>Stepping through a handler\<close>

lemma io_bind_return [simp]: "io_bind (io_return x) f = f x"
  by (simp add: io_bind_def io_return_def)

lemma io_bind_delay [simp]: "io_bind (delay ms) f = f ()"
  by (simp add: delay_def)

lemma io_bind_local_read:
  "io_bind (local_read c rd) f env h = f (rd env (h @ [c])) env (h @ [c])"
  by (simp add: io_bind_def local_read_def)

lemma local_read_apply: "local_read c rd env h = (Inr (rd env (h @ [c])), h @ [c])"
  by (simp add: local_read_def)

lemma io_bind_remote:
  "io_bind (remote c rd) f env h =
     (case throws env (h @ [c]) of
        Some msg \<Rightarrow> (Inl msg, h @ [c])
      | None \<Rightarrow> f (rd env (h @ [c])) env (h @ [c]))"
  by (simp add: io_bind_def remote_def split: option.splits)

lemma io_return_apply: "io_return x env h = (Inr x, h)"
  by (simp add: io_return_def)

lemma io_throw_apply: "io_throw e env h = (Inl e, h)"
  by (simp add: io_throw_def)

lemma delay_apply: "delay ms env h = (Inr (), h)"
  by (simp add: delay_def io_return_def)

lemma io_bind_apply:
  "io_bind m f env h = (case m env h of (Inl e, h') \<Rightarrow> (Inl e, h') | (Inr x, h') \<Rightarrow> f x env h')"
  by (simp add: io_bind_def)

lemma io_catch_apply:
  "io_catch m f env h = (case m env h of (Inl e, h') \<Rightarrow> f e env h' | (Inr x, h') \<Rightarrow> (Inr x, h'))"
  by (simp add: io_catch_def)

lemma remote_apply:
  "remote c rd env h =
     (case throws env (h @ [c]) of
        Some msg \<Rightarrow> (Inl msg, h @ [c])
      | None \<Rightarrow> (Inr (rd env (h @ [c])), h @ [c]))"
  by (simp add: remote_def)

lemma io_both_apply:
  "io_both a b env h =
     (case a env h of
        (ra, h1) \<Rightarrow> (case b env h1 of
          (rb, h2) \<Rightarrow>
            (case ra of
               Inl e \<Rightarrow> (Inl e, h2)
             | Inr x \<Rightarrow> (case rb of Inl e \<Rightarrow> (Inl e, h2) | Inr y \<Rightarrow> (Inr (x, y), h2)))))"
  by (simp add: io_both_def)

lemmas io_apply =
  io_return_apply io_throw_apply delay_apply io_bind_apply io_catch_apply remote_apply
  io_both_apply local_read_apply

section \<open>Calls made by composed computations\<close>

lemma appends_onlyI:
  assumes "\<And>env h. \<exists>new. snd (m env h) = h @ new \<and> list_all P new"
  shows "appends_only P m"
  using assms by (simp add: appends_only_def)

lemma appends_onlyD:
  assumes "appends_only P m"
  obtains new where "snd (m env h) = h @ new" and "list_all P new"
  using assms unfolding appends_only_def by blast

lemma appends_return: "appends_only P (io_return x)"
  by (simp add: appends_only_def io_return_def)

lemma appends_throw: "appends_only P (io_throw e)"
  by (simp add: appends_only_def io_throw_def)

lemma appends_delay: "appends_only P (delay ms)"
  by (simp add: delay_def appends_return)

lemma appends_remote: "P c \<Longrightarrow> appends_only P (remote c rd)"
  by (auto simp: appends_only_def remote_def split: option.splits)

lemma appends_local_read: "P c \<Longrightarrow> appends_only P (local_read c rd)"
  by (simp add: appends_only_def local_read_def)

lemma appends_bind:
  assumes "appends_only P m" and "\<And>x. appends_only P (f x)"
  shows "appends_only P (io_bind m f)"
proof (rule appends_onlyI)
  fix env h
  obtain r h1 where m: "m env h = (r, h1)" by (cases "m env h")
  from assms(1) obtain n1 where n1: "h1 = h @ n1" "list_all P n1"
    by (rule appends_onlyD[of P m env h]) (simp add: m)
  show "\<exists>new. snd (io_bind m f env h) = h @ new \<and> list_all P new"
  proof (cases r)
    case (Inl e)
    with m n1 show ?thesis by (simp add: io_bind_def)
  next
    case (Inr x)
    from assms(2)[of x] obtain n2 where "snd (f x env h1) = h1 @ n2" "list_all P n2"
      by (rule appends_onlyD)
    with Inr m n1 show ?thesis by (simp add: io_bind_def)
  qed
qed

lemma appends_catch:
  assumes "appends_only P m" and "\<And>e. appends_only P (f e)"
  shows "appends_only P (io_catch m f)"
proof (rule appends_onlyI)
  fix env h
  obtain r h1 where m: "m env h = (r, h1)" by (cases "m env h")
  from assms(1) obtain n1 where n1: "h1 = h @ n1" "list_all P n1"
    by (rule appends_onlyD[of P m env h]) (simp add: m)
  show "\<exists>new. snd (io_catch m f env h) = h @ new \<and> list_all P new"
  proof (cases r)
    case (Inr x)
    with m n1 show ?thesis by (simp add: io_catch_def)
  next
    case (Inl e)
    from assms(2)[of e] obtain n2 where "snd (f e env h1) = h1 @ n2" "list_all P n2"
      by (rule appends_onlyD)
    with Inl m n1 show ?thesis by (simp add: io_catch_def)
  qed
qed

lemma appends_finally:
  assumes "appends_only P m" and "appends_only P c"
  shows "appends_only P (io_finally m c)"
proof (rule appends_onlyI)
  fix env h
  obtain r h1 where m: "m env h = (r, h1)" by (cases "m env h")
  from assms(1) obtain n1 where n1: "h1 = h @ n1" "list_all P n1"
    by (rule appends_onlyD[of P m env h]) (simp add: m)
  from assms(2) obtain n2 where n2: "snd (c env h1) = h1 @ n2" "list_all P n2"
    by (rule appends_onlyD)
  with m n1 show "\<exists>new. snd (io_finally m c env h) = h @ new \<and> list_all P new"
    by (cases "c env h1") (auto simp: io_finally_def split: sum.splits)
qed

lemma appends_if:
  "appends_only P a \<Longrightarrow> appends_only P b \<Longrightarrow> appends_only P (if c then a else b)"
  by simp

lemmas appends_intros =
  appends_bind appends_catch appends_finally appends_if appends_return appends_throw
  appends_delay appends_remote appends_local_read

lemma io_bind_assoc: "io_bind (io_bind m g) k = io_bind m (\<lambda>x. io_bind (g x) k)"
  by (auto simp: io_bind_def fun_eq_iff split: prod.splits sum.splits)

lemma appends_both:
  assumes "appends_only P a" and "appends_only P b"
  shows "appends_only P (io_both a b)"
proof (rule appends_onlyI)
  fix env h
  obtain ra h1 where a: "a env h = (ra, h1)" by (cases "a env h")
  from assms(1) obtain n1 where n1: "h1 = h @ n1" "list_all P n1"
    by (rule appends_onlyD[of P a env h]) (simp add: a)
  from assms(2) obtain n2 where n2: "snd (b env h1) = h1 @ n2" "list_all P n2"
    by (rule appends_onlyD)
  with a n1 show "\<exists>new. snd (io_both a b env h) = h @ new \<and> list_all P new"
    by (cases "b env h1") (auto simp: io_both_def split: sum.splits)
qed

lemma first_call_recorded:
  assumes "\<And>x. appends_only P (f x)"
  shows "\<exists>rest. snd (io_bind (remote c rd) f env h) = h @ c # rest"
proof (cases "throws env (h @ [c])")
  case None
  from assms[of "rd env (h @ [c])"] obtain new where
    "snd (f (rd env (h @ [c])) env (h @ [c])) = (h @ [c]) @ new"
    by (rule appends_onlyD)
  with None show ?thesis by (simp add: io_bind_remote)
next
  case (Some e)
  then show ?thesis by (simp add: io_bind_remote)
qed

section \<open>The challenge orchestrator makes one search round\<close>

lemma handlePuzzleTiles_appends:
  "appends_only (\<lambda>c. \<not> next_step_call c) (handlePuzzleTiles f br sid)"
  unfolding handlePuzzleTiles_def downloadPuzzlePiece_def
  by (intro appends_intros) simp_all

lemma search_appends:
  "appends_only (\<lambda>c. \<not> next_step_call c) (findAndClickStartPuzzleButton fr)"
  "appends_only (\<lambda>c. \<not> next_step_call c) (findInChildFrames frs)"
  by (induction fr and frs rule: findAndClickStartPuzzleButton_findInChildFrames.induct)
     (auto intro!: appends_intros)

text \<open>The loop without its dead branch.\<close>

lemma captcha_tiles_loop_Cons:
  "captcha_tiles_loop pg br sid n (f # fs) env h =
     (case handlePuzzleTiles f br sid env h of
        (Inl e, h1) \<Rightarrow> (Inl e, h1)
      | (Inr tilesHandled, h1) \<Rightarrow> captcha_tiles_loop pg br sid n fs env h1)"
proof (cases "handlePuzzleTiles f br sid env h")
  case (Pair r h1)
  with handlePuzzleTiles_not_true[of h1 f br sid env h] have "r \<noteq> Inr True"
    by auto
  with Pair show ?thesis
    by (cases r) auto
qed

declare captcha_tiles_loop.simps(2) [simp del]
declare handleCaptchaChallenge.simps [simp del]

lemma captcha_tiles_loop_count:
  "captcha_tiles_loop pg br sid n fs env h = captcha_tiles_loop pg br sid 0 fs env h"
  by (induction fs arbitrary: h) (auto simp: captcha_tiles_loop_Cons split: prod.splits sum.splits)

lemma captcha_tiles_loop_appends:
  "\<exists>new. snd (captcha_tiles_loop pg br sid n fs env h) = h @ new
        \<and> list_all (\<lambda>c. \<not> next_step_call c) new"
proof (induction fs arbitrary: h)
  case Nil
  show ?case by simp
next
  case (Cons f fs)
  obtain r h1 where t: "handlePuzzleTiles f br sid env h = (r, h1)"
    by (cases "handlePuzzleTiles f br sid env h")
  from handlePuzzleTiles_appends[of f br sid]
  obtain n1 where n1: "h1 = h @ n1" "list_all (\<lambda>c. \<not> next_step_call c) n1"
    by (rule appends_onlyD[where env = env and h = h]) (simp add: t)
  show ?case
  proof (cases r)
    case (Inl e)
    with t n1 show ?thesis by (simp add: captcha_tiles_loop_Cons)
  next
    case (Inr b)
    from Cons.IH[of h1] obtain n2 where
      "snd (captcha_tiles_loop pg br sid n fs env h1) = h1 @ n2"
      "list_all (\<lambda>c. \<not> next_step_call c) n2" by blast
    with Inr t n1 show ?thesis by (simp add: captcha_tiles_loop_Cons)
  qed
qed

section \<open>Frame search visits the frames depth-first and stops at the first match\<close>

text \<open>The guarded evaluation of the search predicate at one frame.\<close>

lemma guarded_evaluation:
  "io_bind (io_catch (remote (FrameEvaluate fid ClickStartPuzzle) bool_result)
                     (\<lambda>error. io_return False)) f env h =
     f (matches_at env h fid) env (h @ [FrameEvaluate fid ClickStartPuzzle])"
  by (simp add: io_bind_def io_catch_def remote_def io_return_def matches_at_def
           split: option.splits)

lemma first_match_Nil: "first_match [] env h = (Inr False, h)"
  by (simp add: io_return_def)

lemma first_match_Cons:
  "first_match (x # xs) env h =
     (if matches_at env h x then (Inr True, h @ [FrameEvaluate x ClickStartPuzzle])
      else first_match xs env (h @ [FrameEvaluate x ClickStartPuzzle]))"
  by (simp only: first_match.simps guarded_evaluation) (simp add: io_return_def)

declare first_match.simps [simp del]

lemma first_match_append:
  "first_match (xs @ ys) env h =
     (case first_match xs env h of
        (Inr False, h') \<Rightarrow> first_match ys env h'
      | r \<Rightarrow> r)"
  by (induction xs arbitrary: h) (simp_all add: first_match_Nil first_match_Cons)

lemma search_is_first_match:
  "findAndClickStartPuzzleButton fr env h = first_match (preorder fr) env h"
  "findInChildFrames frs env h = first_match (preorder_list frs) env h"
proof (induction fr and frs arbitrary: h and h
       rule: findAndClickStartPuzzleButton_findInChildFrames.induct)
  case (1 fid children)
  have "findAndClickStartPuzzleButton (Frame fid children) env h =
          (if matches_at env h fid then (Inr True, h @ [FrameEvaluate fid ClickStartPuzzle])
           else findInChildFrames children env (h @ [FrameEvaluate fid ClickStartPuzzle]))"
    by (simp only: findAndClickStartPuzzleButton.simps guarded_evaluation)
       (simp add: io_return_def)
  then show ?case
    using "1"[of False] by (simp add: first_match_Cons)
next
  case 2
  show ?case by (simp add: first_match_Nil io_return_def)
next
  case (3 childFrame rest)
  show ?case
    by (simp add: first_match_append io_bind_def "3.IH"(1)[symmetric])
       (auto split: prod.splits sum.splits simp: io_return_def "3.IH"(2))
qed

lemma evaluations_Cons: "h @ evaluations (x # xs) = (h @ [FrameEvaluate x ClickStartPuzzle]) @ evaluations xs"
  by (simp add: evaluations_def)

lemma first_match_scan:
  assumes "ids \<noteq> []"
  shows "\<exists>visited stop rest.
           ids = visited @ stop # rest
         \<and> snd (first_match ids env h) = h @ evaluations (visited @ [stop])
         \<and> (\<forall>before y after. visited = before @ y # after
                \<longrightarrow> \<not> matches_at env (h @ evaluations before) y)
         \<and> (if matches_at env (h @ evaluations visited) stop
            then fst (first_match ids env h) = Inr True
            else rest = [] \<and> fst (first_match ids env h) = Inr False)"
  using assms
proof (induction ids arbitrary: h)
  case Nil
  then show ?case by simp
next
  case (Cons x xs)
  let ?h1 = "h @ [FrameEvaluate x ClickStartPuzzle]"
  show ?case
  proof (cases "matches_at env h x \<or> xs = []")
    case True
    then have "x # xs = [] @ x # xs
        \<and> snd (first_match (x # xs) env h) = h @ evaluations ([] @ [x])
        \<and> (\<forall>before y after. [] = before @ y # after
               \<longrightarrow> \<not> matches_at env (h @ evaluations before) y)
        \<and> (if matches_at env (h @ evaluations []) x
            then fst (first_match (x # xs) env h) = Inr True
            else xs = [] \<and> fst (first_match (x # xs) env h) = Inr False)"
      by (auto simp: first_match_Cons first_match_Nil evaluations_def)
    then show ?thesis by blast
  next
    case False
    then have nomatch: "\<not> matches_at env h x" and "xs \<noteq> []" by auto
    from Cons.IH[OF \<open>xs \<noteq> []\<close>, of ?h1]
    obtain visited stop rest where
      split: "xs = visited @ stop # rest"
      and tr: "snd (first_match xs env ?h1) = ?h1 @ evaluations (visited @ [stop])"
      and pre: "\<forall>before y after. visited = before @ y # after
                  \<longrightarrow> \<not> matches_at env (?h1 @ evaluations before) y"
      and res: "if matches_at env (?h1 @ evaluations visited) stop
                then fst (first_match xs env ?h1) = Inr True
                else rest = [] \<and> fst (first_match xs env ?h1) = Inr False"
      by blast
    have step: "first_match (x # xs) env h = first_match xs env ?h1"
      using nomatch by (simp add: first_match_Cons)
    have a: "x # xs = (x # visited) @ stop # rest"
      using split by simp
    have b: "snd (first_match (x # xs) env h) = h @ evaluations ((x # visited) @ [stop])"
      using tr by (simp add: step evaluations_def)
    have c: "\<forall>before y after. x # visited = before @ y # after
                  \<longrightarrow> \<not> matches_at env (h @ evaluations before) y"
    proof (intro allI impI)
      fix before y after
      assume eq: "x # visited = before @ y # after"
      show "\<not> matches_at env (h @ evaluations before) y"
      proof (cases before)
        case Nil
        with eq nomatch show ?thesis by (simp add: evaluations_def)
      next
        case (Cons b bs)
        with eq have "visited = bs @ y # after" and "b = x" by auto
        with pre have "\<not> matches_at env (?h1 @ evaluations bs) y" by blast
        with Cons \<open>b = x\<close> show ?thesis by (simp add: evaluations_def)
      qed
    qed
    have d: "if matches_at env (h @ evaluations (x # visited)) stop
             then fst (first_match (x # xs) env h) = Inr True
             else rest = [] \<and> fst (first_match (x # xs) env h) = Inr False"
      using res by (simp add: step evaluations_def)
    from a b c d show ?thesis by blast
  qed
qed

lemma preorder_nonempty: "preorder fr \<noteq> []"
  by (cases fr) simp

text \<open>
  Claim C2. For every frame tree, every browser and every history, the search evaluates
  its predicate on an initial segment \<open>visited @ [stop]\<close> of the frames in depth-first
  document order, which starts with the root; the predicate holds at none of the frames
  before \<open>stop\<close>; if it holds at \<open>stop\<close> the search returns true there and evaluates
  nothing further; otherwise \<open>stop\<close> is the last frame of the tree and the search returns
  false. A failed evaluation counts as "does not hold" (\<open>matches_at\<close>), and the search
  itself never throws: its outcome is always \<open>Inr\<close>.
\<close>

theorem frame_search_depth_first_first_match:
  "\<exists>visited stop rest.
       preorder fr = visited @ stop # rest
     \<and> hd (preorder fr) = frame_id fr
     \<and> snd (findAndClickStartPuzzleButton fr env h) = h @ evaluations (visited @ [stop])
     \<and> (\<forall>before y after. visited = before @ y # after
            \<longrightarrow> \<not> matches_at env (h @ evaluations before) y)
     \<and> (if matches_at env (h @ evaluations visited) stop
        then fst (findAndClickStartPuzzleButton fr env h) = Inr True
        else rest = [] \<and> fst (findAndClickStartPuzzleButton fr env h) = Inr False)"
proof -
  have root: "hd (preorder fr) = frame_id fr"
    by (cases fr) simp
  from first_match_scan[OF preorder_nonempty, of fr env h] root
  show ?thesis
    unfolding search_is_first_match(1) by blast
qed

theorem frame_search_depth_first_first_match_witness:
  "findAndClickStartPuzzleButton nested_frames search_env [] =
     (Inr True, [FrameEvaluate 0 ClickStartPuzzle, FrameEvaluate 1 ClickStartPuzzle,
                 FrameEvaluate 2 ClickStartPuzzle])"
  using frame_search_depth_first_first_match[of nested_frames search_env "[]"]
  by (simp add: nested_frames_def search_env_def calm_env_def io_bind_def io_catch_def
        remote_def io_return_def)

section \<open>The orchestrator never notices a solved puzzle\<close>

lemma handleCaptchaChallenge_round:
  "handleCaptchaChallenge pg br sid n env h =
     (case findAndClickStartPuzzleButton (main_frame_result env (h @ [MainFrame pg])) env
             (h @ [MainFrame pg]) of
        (Inl e, h1) \<Rightarrow> (Inl e, h1)
      | (Inr buttonFound, h1) \<Rightarrow>
          if buttonFound
          then captcha_tiles_loop pg br sid n (frames_result env (h1 @ [Frames pg])) env
                 (h1 @ [Frames pg])
          else (Inr ReturnsTrue, h1))"
  by (simp add: handleCaptchaChallenge.simps io_bind_local_read local_read_apply
           split: prod.splits sum.splits)

lemma captcha_tiles_loop_not_true:
  "fst (captcha_tiles_loop pg br sid n fs env h) \<noteq> Inr ReturnsTrue"
  by (induction fs arbitrary: h)
     (auto simp: captcha_tiles_loop_Cons split: prod.splits sum.splits)

lemma search_never_throws:
  "fst (findAndClickStartPuzzleButton fr env h) \<noteq> Inl e"
  using first_match_scan[OF preorder_nonempty, of fr env h]
  by (auto simp: search_is_first_match(1) split: if_splits)

lemma handlePuzzleTiles_no_throw:
  assumes "\<forall>t. throws env t = None"
  shows "fst (handlePuzzleTiles f br sid env h) = Inr False"
  using assms
  by (simp add: handlePuzzleTiles_def downloadPuzzlePiece_def io_bind_remote io_finally_def
        io_catch_def io_bind_def remote_def io_return_def delay_def split: prod.splits)

text \<open>
  Claim C4. \<open>handlePuzzleTiles\<close> never returns true: it returns false or throws, and it
  returns false whenever no browser call fails, also when six tiles are found and the
  first tile's image is relayed. So the loop of \<open>handleCaptchaChallenge\<close> behaves as if
  the \<open>if (tilesHandled) { ... }\<close> branch (the wait for the address change, the
  increment of the challenge count and the verification-code step) were not there.
\<close>

theorem handlePuzzleTiles_always_false:
  "fst (handlePuzzleTiles f br sid env h) \<noteq> Inr True
   \<and> ((\<forall>t. throws env t = None) \<longrightarrow> fst (handlePuzzleTiles f br sid env h) = Inr False)
   \<and> captcha_tiles_loop pg br sid n (f # fs) env h =
       (case handlePuzzleTiles f br sid env h of
          (Inl e, h1) \<Rightarrow> (Inl e, h1)
        | (Inr tilesHandled, h1) \<Rightarrow> captcha_tiles_loop pg br sid n fs env h1)"
proof (intro conjI impI)
  show "fst (handlePuzzleTiles f br sid env h) \<noteq> Inr True"
    using handlePuzzleTiles_not_true[of "snd (handlePuzzleTiles f br sid env h)" f br sid env h]
    by (cases "handlePuzzleTiles f br sid env h") auto
  show "captcha_tiles_loop pg br sid n (f # fs) env h =
       (case handlePuzzleTiles f br sid env h of
          (Inl e, h1) \<Rightarrow> (Inl e, h1)
        | (Inr tilesHandled, h1) \<Rightarrow> captcha_tiles_loop pg br sid n fs env h1)"
    by (rule captcha_tiles_loop_Cons)
next
  assume "\<forall>t. throws env t = None"
  then show "fst (handlePuzzleTiles f br sid env h) = Inr False"
    by (rule handlePuzzleTiles_no_throw)
qed

theorem handlePuzzleTiles_always_false_witness:
  "handlePuzzleTiles (Frame 1 []) 1 ''s1'' puzzle_env [] =
     (Inr False,
      [FrameEvaluate 1 TilesLengthIs6, FrameEvaluate 1 FirstTileBlobUrl, NewPage 1,
       CreateCDPSession 3, CdpSend 4 ''Page.enable'', CdpSend 4 ''Page.setDownloadBehavior'',
       Goto 3 ''blob:https://www.linkedin.com/8d1f'', Evaluate 3 (DownloadLink ''s1''),
       CdpDetach 4, ClosePage 3])
   \<and> (\<forall>t. throws puzzle_env t = None)"
  using handlePuzzleTiles_always_false[of "Frame 1 []" 1 "''s1''" puzzle_env "[]" 2 0 "[]"]
  by (simp add: puzzle_env_def calm_env_def handlePuzzleTiles_def downloadPuzzlePiece_def
        io_bind_def io_catch_def io_finally_def remote_def io_return_def delay_def falsy_def
        str_of_def)

text \<open>
  For every session and every challenge count, \<open>handleCaptchaChallenge\<close> runs one
  search round and returns: what it does is the same for every count; after the one
  \<open>page.mainFrame()\<close> with which the search starts it makes no call that waits for the
  address to change, enters the verification code or starts another search; and it
  returns true exactly when the search finds no start control.
\<close>

lemma handleCaptchaChallenge_single_round:
  "handleCaptchaChallenge pg br sid n env h = handleCaptchaChallenge pg br sid 0 env h
   \<and> (\<exists>rest. snd (handleCaptchaChallenge pg br sid n env h) = h @ MainFrame pg # rest
             \<and> list_all (\<lambda>c. \<not> next_step_call c) rest)
   \<and> (fst (handleCaptchaChallenge pg br sid n env h) = Inr ReturnsTrue
        \<longleftrightarrow> fst (findAndClickStartPuzzleButton (main_frame_result env (h @ [MainFrame pg])) env
                 (h @ [MainFrame pg])) = Inr False)"
proof (intro conjI)
  let ?h0 = "h @ [MainFrame pg]"
  let ?fr = "main_frame_result env ?h0"
  obtain r h1 where s: "findAndClickStartPuzzleButton ?fr env ?h0 = (r, h1)"
    by (cases "findAndClickStartPuzzleButton ?fr env ?h0")
  from search_appends(1)[of ?fr]
  obtain n1 where n1: "h1 = ?h0 @ n1" "list_all (\<lambda>c. \<not> next_step_call c) n1"
    by (rule appends_onlyD[where env = env and h = ?h0]) (simp add: s)
  from search_never_throws[of ?fr env ?h0] s obtain b where r: "r = Inr b"
    by (cases r) auto
  show "handleCaptchaChallenge pg br sid n env h = handleCaptchaChallenge pg br sid 0 env h"
    by (simp add: handleCaptchaChallenge_round[of pg br sid n]
          handleCaptchaChallenge_round[of pg br sid 0] s r
          captcha_tiles_loop_count[of pg br sid n])
  show "\<exists>rest. snd (handleCaptchaChallenge pg br sid n env h) = h @ MainFrame pg # rest
             \<and> list_all (\<lambda>c. \<not> next_step_call c) rest"
  proof (cases b)
    case False
    with s r n1 show ?thesis by (simp add: handleCaptchaChallenge_round)
  next
    case True
    let ?h2 = "h1 @ [Frames pg]"
    from captcha_tiles_loop_appends[of pg br sid n "frames_result env ?h2" env ?h2]
    obtain n2 where "snd (captcha_tiles_loop pg br sid n (frames_result env ?h2) env ?h2) = ?h2 @ n2"
      "list_all (\<lambda>c. \<not> next_step_call c) n2" by blast
    with True s r n1 show ?thesis by (simp add: handleCaptchaChallenge_round)
  qed
  show "fst (handleCaptchaChallenge pg br sid n env h) = Inr ReturnsTrue
        \<longleftrightarrow> fst (findAndClickStartPuzzleButton ?fr env ?h0) = Inr False"
    using captcha_tiles_loop_not_true[of pg br sid n _ env]
    by (cases b) (simp_all add: handleCaptchaChallenge_round s r)
qed

text \<open>
  Claim C3. When a puzzle cycle completes, the orchestrator should count it and go on:
  to the one-time-code step once the count reaches two, to another search round while
  it is below two. \<open>handleCaptchaChallenge\<close> has the statements for this (the increment
  of the count, the comparison with two, the code step and the call of itself), but
  they stand behind \<open>if (tilesHandled)\<close>, and \<open>handlePuzzleTiles\<close> returns false on every
  path. Here the page shows the start control and six tiles, and its address changes
  once the tile image has been relayed. Entered with a count of 1, the function relays
  the image and returns without a value: it reads no address, waits for no change and
  enters no code. Entered with a count of 0 it does the same: it does not search again
  (\<open>page.mainFrame()\<close> is called once).
\<close>

theorem handleCaptchaChallenge_no_transition:
  "handleCaptchaChallenge 2 1 ''s1'' 1 solved_env [] =
     (Inr ReturnsUndefined,
      [MainFrame 2, FrameEvaluate 0 ClickStartPuzzle, Frames 2, FrameEvaluate 0 TilesLengthIs6,
       FrameEvaluate 1 TilesLengthIs6, FrameEvaluate 1 FirstTileBlobUrl, NewPage 1,
       CreateCDPSession 7, CdpSend 8 ''Page.enable'', CdpSend 8 ''Page.setDownloadBehavior'',
       Goto 7 ''blob:https://www.linkedin.com/8d1f'', Evaluate 7 (DownloadLink ''s1''),
       CdpDetach 8, ClosePage 7])
   \<and> handleCaptchaChallenge 2 1 ''s1'' 0 solved_env [] =
       handleCaptchaChallenge 2 1 ''s1'' 1 solved_env []
   \<and> url_result solved_env [] = ''https://www.linkedin.com/checkpoint/challenge''
   \<and> url_result solved_env (snd (handleCaptchaChallenge 2 1 ''s1'' 1 solved_env [])) =
        ''https://www.linkedin.com/checkpoint/challenge/verify''"
  by (simp add: handleCaptchaChallenge_round captcha_tiles_loop_Cons solved_env_def
        puzzle_env_def calm_env_def
        handlePuzzleTiles_def downloadPuzzlePiece_def io_bind_def io_catch_def io_finally_def
        remote_def io_return_def delay_def falsy_def str_of_def)

section \<open>Validation of the tile number\<close>

text \<open>
  Claim C8. A tile-selection request whose tile index is missing or is not one of 1..6
  should be turned away before the browser is touched. The test
  \<open>!tileNumber || tileNumber < 1 || tileNumber > 6\<close> of \<open>select-tile\<close> misses the values
  that are neither falsy nor convert to a number below 1 or above 6: on a registered
  session the string \<open>"abc"\<close> and the object \<open>{}\<close> (both convert to NaN), the fraction
  \<open>2.5\<close> and \<open>true\<close> (which converts to 1) all pass it, and the handler calls
  \<open>page.frames()\<close> and \<open>frame.evaluate\<close> on every frame with the value as it came.
\<close>

theorem select_tile_accepts_non_index_values:
  "select_tile (Some ''s1'') (JString ''abc'' None) one_session calm_env [] =
     (Response 404 (JsonError ''No puzzle tiles found''), one_session,
      [Frames 2, FrameEvaluate 0 (ClickTile (JString ''abc'' None)),
       FrameEvaluate 1 (ClickTile (JString ''abc'' None))])
   \<and> select_tile (Some ''s1'') (JObject None) one_session calm_env [] =
     (Response 404 (JsonError ''No puzzle tiles found''), one_session,
      [Frames 2, FrameEvaluate 0 (ClickTile (JObject None)),
       FrameEvaluate 1 (ClickTile (JObject None))])
   \<and> select_tile (Some ''s1'') (JNumber (Finite (5 / 2))) one_session calm_env [] =
     (Response 404 (JsonError ''No puzzle tiles found''), one_session,
      [Frames 2, FrameEvaluate 0 (ClickTile (JNumber (Finite (5 / 2)))),
       FrameEvaluate 1 (ClickTile (JNumber (Finite (5 / 2))))])
   \<and> select_tile (Some ''s1'') (JBool True) one_session calm_env [] =
     (Response 404 (JsonError ''No puzzle tiles found''), one_session,
      [Frames 2, FrameEvaluate 0 (ClickTile (JBool True)),
       FrameEvaluate 1 (ClickTile (JBool True))])"
  by (simp add: select_tile_def with_page_def invalid_tile_def js_less_def js_greater_def
        io_apply falsy_def str_of_def sessions_get_def one_session_def calm_env_def)

text \<open>What the test does turn away: a missing or null tile number, and every number
  below 1 or above 6, whatever the registry holds.\<close>

lemma invalid_tile_numbers:
  "invalid_tile JUndefined"
  "invalid_tile JNull"
  "invalid_tile (JNumber (Finite q)) \<longleftrightarrow> q < 1 \<or> q > 6"
  "invalid_tile (JNumber NegInfinity)"
  "invalid_tile (JNumber PosInfinity)"
  by (auto simp: invalid_tile_def js_less_def js_greater_def)

lemma completion_check_appends: "appends_only (\<lambda>c. True) (completion_check pg)"
  unfolding completion_check_def
  by (intro appends_intros) simp_all

lemma select_tile_frames_appends: "appends_only (\<lambda>c. True) (select_tile_frames pg v fs)"
proof (induction fs)
  case Nil
  show ?case by (simp add: appends_return)
next
  case (Cons f fs)
  have "appends_only (\<lambda>c. True)
          (case r of Some resp \<Rightarrow> io_return (Some resp) | None \<Rightarrow> select_tile_frames pg v fs)"
    for r
    using Cons.IH by (cases r) (simp_all add: appends_return)
  with Cons.IH show ?case
    by (auto intro!: appends_intros completion_check_appends)
qed

text \<open>The handler leaves the browser untouched exactly when one of its three checks
  turns the request away or the id resolves to something that is no session.\<close>

lemma select_tile_untouched:
  "snd (snd (select_tile sid v ss env h)) = h \<longleftrightarrow>
     falsy sid \<or> invalid_tile v \<or> (\<forall>s. sessions_get ss (str_of sid) \<noteq> Own s)"
proof (cases "sessions_get ss (str_of sid)")
  case (Own s)
  let ?h1 = "h @ [Frames (page s)]"
  obtain r h' where run:
    "select_tile_frames (page s) v (frames_result env ?h1) env ?h1 = (r, h')"
    by (cases "select_tile_frames (page s) v (frames_result env ?h1) env ?h1")
  from select_tile_frames_appends[of "page s" v "frames_result env ?h1"]
  obtain new where "h' = ?h1 @ new"
    by (rule appends_onlyD[where env = env and h = ?h1]) (simp add: run)
  then have "h' \<noteq> h" by simp
  with Own run show ?thesis
    by (simp add: select_tile_def with_page_def io_bind_local_read
          split: sum.splits option.splits)
qed (simp_all add: select_tile_def with_page_def)

lemma select_tile_rejects_out_of_range:
  assumes "v = JUndefined \<or> v = JNull \<or> (\<exists>q. v = JNumber (Finite q) \<and> (q < 1 \<or> q > 6))"
  shows "\<exists>msg. select_tile sessionId v ss env h = (Response 400 (JsonError msg), ss, h)
           \<and> (msg = ''Session ID is required'' \<or> msg = ''Valid tile number (1-6) is required'')"
proof -
  from assms have "invalid_tile v"
    by (auto simp: invalid_tile_numbers)
  then show ?thesis
    by (simp add: select_tile_def)
qed

section \<open>Submitting a one-time code\<close>

lemma pin_submission_succeeds:
  assumes "pin_calls_succeed env h pg code"
  shows "pin_submission pg code env h =
       (let h1 = h @ pin_calls pg code in
        if bool_result env h1
        then (Inr (Response 400 (SendText ''Invalid verification code. Please try again.'')), h1)
        else if includes_str (url_result env (h1 @ [Url pg])) ''/login-challenge-submit''
        then (Inr (Response 200 (SendText ''lastcve'')), h1 @ [Url pg])
        else (Inr (Response 200 (SendText ''1'')), h1 @ [Url pg]))"
  using assms
  by (simp add: pin_submission_def pin_calls_def pin_calls_succeed_def io_apply Let_def
        split: option.splits)

lemma pin_submission_fails:
  assumes "\<not> pin_calls_succeed env h pg code"
  shows "\<exists>e h'. pin_submission pg code env h = (Inl e, h')"
  using assms
  by (auto simp: pin_submission_def pin_calls_def pin_calls_succeed_def io_apply
        split: option.splits)

text \<open>
  Claim C6. Take a code submission that passes validation and names a registered
  session. If the submission goes through (no call up to the read of the error banner
  fails, the swallowed wait for the navigation apart) and the error banner is present
  afterwards, the answer is status 400 with the invalid-code message, the registry is
  unchanged and nothing further is called on the page, so the same request can be sent
  again. If the banner is absent, an address containing \<open>/login-challenge-submit\<close>
  gives \<open>lastcve\<close>, and any other address gives \<open>1\<close>; again the registry is unchanged. If
  the submission does not go through, the answer is the internal fault (status 500),
  with the registry unchanged.
\<close>

theorem verify_code_outcomes:
  assumes "\<not> falsy sessionId" and "\<not> falsy code"
    and "ss (str_of sessionId) = Some s"
  shows "(pin_calls_succeed env h (page s) (str_of code) \<longrightarrow>
          verify_code code sessionId ss env h =
           (let h1 = h @ pin_calls (page s) (str_of code) in
            if bool_result env h1
            then (Response 400 (SendText ''Invalid verification code. Please try again.''), ss, h1)
            else if includes_str (url_result env (h1 @ [Url (page s)])) ''/login-challenge-submit''
            then (Response 200 (SendText ''lastcve''), ss, h1 @ [Url (page s)])
            else (Response 200 (SendText ''1''), ss, h1 @ [Url (page s)])))
       \<and> (\<not> pin_calls_succeed env h (page s) (str_of code) \<longrightarrow>
          fst (verify_code code sessionId ss env h) =
            Response 500 (JsonError ''Failed to submit verification code'')
          \<and> fst (snd (verify_code code sessionId ss env h)) = ss)"
proof -
  have vc: "verify_code code sessionId ss env h =
      (case pin_submission (page s) (str_of code) env h of
         (Inl e, h') \<Rightarrow> (Response 500 (JsonError ''Failed to submit verification code''), ss, h')
       | (Inr x, h') \<Rightarrow> (x, ss, h'))"
    using assms by (simp add: verify_code_def with_page_def sessions_get_def)
  have good: ?thesis if "pin_calls_succeed env h (page s) (str_of code)"
    using that by (simp add: vc pin_submission_succeeds Let_def)
  have bad: ?thesis if "\<not> pin_calls_succeed env h (page s) (str_of code)"
    using that pin_submission_fails[OF that] by (auto simp: vc)
  from good bad show ?thesis by blast
qed

theorem verify_code_outcomes_witness:
  "\<not> falsy (Some ''s1'') \<and> \<not> falsy (Some ''123456'')
   \<and> one_session (str_of (Some ''s1'')) = Some \<lparr>browser = 1, page = 2\<rparr>
   \<and> pin_calls_succeed rejecting_env [] 2 ''123456''
   \<and> verify_code (Some ''123456'') (Some ''s1'') one_session rejecting_env [] =
       (Response 400 (SendText ''Invalid verification code. Please try again.''), one_session,
        pin_calls 2 ''123456'')
   \<and> pin_calls_succeed dead_end_env [] 2 ''123456''
   \<and> verify_code (Some ''123456'') (Some ''s1'') one_session dead_end_env [] =
       (Response 200 (SendText ''lastcve''), one_session, pin_calls 2 ''123456'' @ [Url 2])
   \<and> pin_calls_succeed calm_env [] 2 ''123456''
   \<and> verify_code (Some ''123456'') (Some ''s1'') one_session calm_env [] =
       (Response 200 (SendText ''1''), one_session, pin_calls 2 ''123456'' @ [Url 2])
   \<and> \<not> pin_calls_succeed stuck_env [] 2 ''123456''
   \<and> fst (verify_code (Some ''123456'') (Some ''s1'') one_session stuck_env []) =
       Response 500 (JsonError ''Failed to submit verification code'')"
proof -
  have v: "\<not> falsy (Some ''s1'')" "\<not> falsy (Some ''123456'')"
    by (simp_all add: falsy_def)
  have s: "one_session (str_of (Some ''s1'')) = Some \<lparr>browser = 1, page = 2\<rparr>"
    by (simp add: one_session_def str_of_def)
  have c: "str_of (Some ''123456'') = ''123456''"
    by (simp add: str_of_def)
  have p: "pin_calls_succeed rejecting_env [] 2 ''123456''"
    "pin_calls_succeed dead_end_env [] 2 ''123456''"
    "pin_calls_succeed calm_env [] 2 ''123456''"
    "\<not> pin_calls_succeed stuck_env [] 2 ''123456''"
    by (simp_all add: pin_calls_succeed_def pin_calls_def rejecting_env_def dead_end_env_def
          stuck_env_def calm_env_def)
  have b: "bool_result rejecting_env (pin_calls 2 ''123456'')"
    "\<not> bool_result dead_end_env (pin_calls 2 ''123456'')"
    "\<not> bool_result calm_env (pin_calls 2 ''123456'')"
    by (simp_all add: pin_calls_def rejecting_env_def dead_end_env_def calm_env_def)
  have u: "includes_str (url_result dead_end_env (pin_calls 2 ''123456'' @ [Url 2]))
             ''/login-challenge-submit''"
    "\<not> includes_str (url_result calm_env (pin_calls 2 ''123456'' @ [Url 2]))
             ''/login-challenge-submit''"
    by (simp_all add: dead_end_env_def calm_env_def)
  from v s p b u
    verify_code_outcomes[where sessionId = "Some ''s1''" and code = "Some ''123456''"
      and ss = one_session and s = "\<lparr>browser = 1, page = 2\<rparr>" and env = rejecting_env and h = "[]"]
    verify_code_outcomes[where sessionId = "Some ''s1''" and code = "Some ''123456''"
      and ss = one_session and s = "\<lparr>browser = 1, page = 2\<rparr>" and env = dead_end_env and h = "[]"]
    verify_code_outcomes[where sessionId = "Some ''s1''" and code = "Some ''123456''"
      and ss = one_session and s = "\<lparr>browser = 1, page = 2\<rparr>" and env = calm_env and h = "[]"]
    verify_code_outcomes[where sessionId = "Some ''s1''" and code = "Some ''123456''"
      and ss = one_session and s = "\<lparr>browser = 1, page = 2\<rparr>" and env = stuck_env and h = "[]"]
  show ?thesis
    by (simp add: c)
qed

section \<open>An unknown session id\<close>

text \<open>
  Claim C9, as the specification states it, fails: for the same unknown session id,
  \<open>select-tile\<close> answers status 400 with \<open>{ error: "Session not found" }\<close> while
  \<open>check-login-status\<close> answers status 200 with \<open>"0"\<close>; and \<open>verify-code\<close> without a code
  answers "Verification code is required", since that check comes before the lookup.
\<close>

theorem session_not_found_not_uniform_counterexample:
  "one_session ''nobody'' = None
   \<and> select_tile (Some ''nobody'') (JNumber (Finite 3)) one_session calm_env [] =
        (Response 400 (JsonError ''Session not found''), one_session, [])
   \<and> check_login_status (Some ''nobody'') one_session calm_env [] =
        (Response 200 (SendText ''0''), one_session, [])
   \<and> verify_code None (Some ''nobody'') one_session calm_env [] =
        (Response 400 (JsonError ''Verification code is required''), one_session, [])"
  by (simp add: select_tile_def check_login_status_def verify_code_def falsy_def str_of_def
        sessions_get_def one_session_def invalid_tile_def js_less_def js_greater_def
        object_prototype_keys_def)

text \<open>
  Claim C9, amended. Take a session id that is supplied, names no session of the
  registry, and is not the name of a property that every JavaScript object inherits
  (\<open>constructor\<close>, \<open>toString\<close>, ...: \<open>object_prototype_keys\<close>). Then no operation calls
  the browser or changes the registry, and: tile selection (with a tile number that
  passes its check), code and SMS-code submission (with a code) and phone submission
  and update (with phone and country code) answer status 400 with the JSON error
  "Session not found"; fetching the challenge controls answers status 400 with the
  plain text "Session not found"; the status poll answers status 200 with \<open>"0"\<close>.
\<close>

theorem session_not_found_outcomes:
  assumes "\<not> falsy sessionId"
    and "ss (str_of sessionId) = None"
    and "str_of sessionId \<notin> set object_prototype_keys"
  shows
    "(\<not> invalid_tile tileNumber \<longrightarrow>
        select_tile sessionId tileNumber ss env h =
          (Response 400 (JsonError ''Session not found''), ss, h))
     \<and> (\<not> falsy code \<longrightarrow>
        verify_code code sessionId ss env h =
          (Response 400 (JsonError ''Session not found''), ss, h)
        \<and> verify_sms code sessionId ss env h =
          (Response 400 (JsonError ''Session not found''), ss, h))
     \<and> (\<not> falsy phone \<and> \<not> falsy countryCode \<longrightarrow>
        verify_phone phone countryCode sessionId ss env h =
          (Response 400 (JsonError ''Session not found''), ss, h)
        \<and> update_phone phone countryCode sessionId ss env h =
          (Response 400 (JsonError ''Session not found''), ss, h))
     \<and> security_verification sessionId ss env h =
          (Response 400 (SendText ''Session not found''), ss, h)
     \<and> check_login_status sessionId ss env h = (Response 200 (SendText ''0''), ss, h)"
proof -
  from assms(2,3) have "sessions_get ss (str_of sessionId) = Absent"
    by (simp add: sessions_get_def)
  with assms(1) show ?thesis
    by (simp add: select_tile_def verify_code_def verify_sms_def verify_phone_def
          update_phone_def security_verification_def check_login_status_def)
qed

theorem session_not_found_outcomes_witness:
  "\<not> falsy (Some ''nobody'') \<and> one_session (str_of (Some ''nobody'')) = None
   \<and> str_of (Some ''nobody'') \<notin> set object_prototype_keys
   \<and> \<not> invalid_tile (JNumber (Finite 3)) \<and> \<not> falsy (Some ''123456'')
   \<and> \<not> falsy (Some ''5551234567'') \<and> \<not> falsy (Some ''us'')
   \<and> select_tile (Some ''nobody'') (JNumber (Finite 3)) one_session calm_env [] =
        (Response 400 (JsonError ''Session not found''), one_session, [])
   \<and> verify_code (Some ''123456'') (Some ''nobody'') one_session calm_env [] =
        (Response 400 (JsonError ''Session not found''), one_session, [])
   \<and> verify_sms (Some ''123456'') (Some ''nobody'') one_session calm_env [] =
        (Response 400 (JsonError ''Session not found''), one_session, [])
   \<and> verify_phone (Some ''5551234567'') (Some ''us'') (Some ''nobody'') one_session calm_env [] =
        (Response 400 (JsonError ''Session not found''), one_session, [])
   \<and> update_phone (Some ''5551234567'') (Some ''us'') (Some ''nobody'') one_session calm_env [] =
        (Response 400 (JsonError ''Session not found''), one_session, [])
   \<and> security_verification (Some ''nobody'') one_session calm_env [] =
        (Response 400 (SendText ''Session not found''), one_session, [])
   \<and> check_login_status (Some ''nobody'') one_session calm_env [] =
        (Response 200 (SendText ''0''), one_session, [])"
proof -
  have a: "\<not> falsy (Some ''nobody'')" "\<not> falsy (Some ''123456'')"
    "\<not> falsy (Some ''5551234567'')" "\<not> falsy (Some ''us'')"
    by (simp_all add: falsy_def)
  have b: "one_session (str_of (Some ''nobody'')) = None"
    by (simp add: one_session_def str_of_def)
  have c: "str_of (Some ''nobody'') \<notin> set object_prototype_keys"
    by (simp add: str_of_def object_prototype_keys_def)
  have d: "\<not> invalid_tile (JNumber (Finite 3))"
    by (simp add: invalid_tile_def js_less_def js_greater_def)
  from a b c d
    session_not_found_outcomes[of "Some ''nobody''" one_session "JNumber (Finite 3)" calm_env "[]"
          "Some ''123456''" "Some ''5551234567''" "Some ''us''"]
  show ?thesis by simp
qed

text \<open>
  An id that names no session but is the name of an inherited property
  (\<open>sessions["constructor"]\<close> is the function \<open>Object\<close>) passes the \<open>!session\<close> test. Its
  \<open>page\<close> is undefined, so the first method call throws a TypeError inside the \<open>try\<close>:
  the handlers answer with their internal-fault response, again without a call on the
  browser and without a change of the registry.
\<close>

lemma inherited_key_outcomes:
  assumes "\<not> falsy sessionId"
    and "ss (str_of sessionId) = None"
    and "str_of sessionId \<in> set object_prototype_keys"
  shows
    "(\<not> invalid_tile tileNumber \<longrightarrow>
        select_tile sessionId tileNumber ss env h =
          (Response 500 (JsonError ''Failed to select tile''), ss, h))
     \<and> (\<not> falsy code \<longrightarrow>
        verify_code code sessionId ss env h =
          (Response 500 (JsonError ''Failed to submit verification code''), ss, h)
        \<and> verify_sms code sessionId ss env h =
          (Response 500 (JsonError ''Failed to submit verification code''), ss, h))
     \<and> (\<not> falsy phone \<and> \<not> falsy countryCode \<longrightarrow>
        verify_phone phone countryCode sessionId ss env h =
          (Response 500 (JsonError ''Failed to submit phone number''), ss, h)
        \<and> update_phone phone countryCode sessionId ss env h =
          (Response 500 (JsonError ''Failed to update phone number''), ss, h))
     \<and> security_verification sessionId ss env h =
          (Response 500 (JsonError (''Failed to get puzzle tiles: '' @ type_error env ''frames'')),
           ss, h)
     \<and> check_login_status sessionId ss env h = (Response 200 (SendText ''0''), ss, h)"
proof -
  from assms(2,3) have "sessions_get ss (str_of sessionId) = Inherited"
    by (simp add: sessions_get_def)
  with assms(1) show ?thesis
    by (simp add: select_tile_def verify_code_def verify_sms_def verify_phone_def
          update_phone_def security_verification_def check_login_status_def with_page_def)
qed

section \<open>The minimum length of a phone number\<close>

text \<open>
  Claim C1, as the specification states it, fails for the server's operation:
  \<open>verify-phone\<close> with the three-character number \<open>123\<close> on a registered session fills
  in and submits the remote form.
\<close>

theorem verify_phone_short_number_counterexample:
  "length ''123'' < (10::nat)
   \<and> verify_phone (Some ''123'') (Some ''us'') (Some ''s1'') one_session calm_env [] =
       (Response 200 (SendText ''1''), one_session,
        phone_calls 2 ''123'' ''us'' @ [Url 2, Evaluate 2 HeaderText])"
  by (simp add: verify_phone_def verify_phone_body_def phone_form_def phone_calls_def
        with_page_def io_apply falsy_def str_of_def sessions_get_def one_session_def calm_env_def)

lemma verify_phone_body_calls:
  "\<exists>rest. snd (verify_phone_body pg phone cc env h) = h @ WaitForSelector pg SelPhoneCountry # rest"
  unfolding verify_phone_body_def phone_form_def io_bind_assoc
  by (rule first_call_recorded[where P = "\<lambda>c. True"])
     (intro appends_intros appends_both, simp_all)

lemma update_phone_body_calls:
  "\<exists>rest. snd (update_phone_body pg phone cc env h) = h @ WaitForSelector pg SelPhoneCountry # rest"
  unfolding update_phone_body_def phone_form_def io_bind_assoc
  by (rule first_call_recorded[where P = "\<lambda>c. True"])
     (intro appends_intros appends_both, simp_all)

lemma verify_phone_untouched:
  "snd (snd (verify_phone phone cc sid ss env h)) = h \<longleftrightarrow>
     falsy sid \<or> falsy phone \<or> falsy cc \<or> (\<forall>s. sessions_get ss (str_of sid) \<noteq> Own s)"
proof (cases "sessions_get ss (str_of sid)")
  case (Own s)
  obtain r h' where run: "verify_phone_body (page s) (str_of phone) (str_of cc) env h = (r, h')"
    by (cases "verify_phone_body (page s) (str_of phone) (str_of cc) env h")
  with verify_phone_body_calls[of "page s" "str_of phone" "str_of cc" env h]
  have "h' \<noteq> h" by auto
  with Own run show ?thesis
    by (simp add: verify_phone_def with_page_def split: sum.splits)
qed (simp_all add: verify_phone_def with_page_def)

lemma update_phone_untouched:
  "snd (snd (update_phone phone cc sid ss env h)) = h \<longleftrightarrow>
     falsy sid \<or> falsy phone \<or> falsy cc \<or> (\<forall>s. sessions_get ss (str_of sid) \<noteq> Own s)"
proof (cases "sessions_get ss (str_of sid)")
  case (Own s)
  obtain r h' where run: "update_phone_body (page s) (str_of phone) (str_of cc) env h = (r, h')"
    by (cases "update_phone_body (page s) (str_of phone) (str_of cc) env h")
  with update_phone_body_calls[of "page s" "str_of phone" "str_of cc" env h]
  have "h' \<noteq> h" by auto
  with Own run show ?thesis
    by (simp add: update_phone_def with_page_def split: sum.splits)
qed (simp_all add: update_phone_def with_page_def)

text \<open>A number of ten digits passes the client's check and is sent on.\<close>

lemma handleSubmit_sends_long_number:
  "handleSubmit [0x20, 0x35, 0x35, 0x35, 0x31, 0x32, 0x33, 0x34, 0x35, 0x36, 0x37] [0x75, 0x73]
       (Some [0x73, 0x31]) one_session calm_env [] =
     (Redirects, one_session, phone_calls 2 ''5551234567'' ''us'' @ [Url 2])"
  by (simp add: handleSubmit_def trim_def is_space_def Let_def utf8_code_point_def char_of_def
        bit_Suc_0_iff
        update_phone_def update_phone_body_def phone_form_def phone_calls_def
        with_page_def io_apply falsy_def str_of_def sessions_get_def one_session_def calm_env_def)

text \<open>
  Claim C1, amended. The minimum length is checked by the client's \<open>handleSubmit\<close>: a
  phone value shorter than 10 characters (UTF-16 code units) after trimming gets a
  validation message, no request is sent, and so the registry and the browser history
  stay as they were. The server's \<open>verify-phone\<close> and \<open>update-phone\<close> leave the browser
  untouched exactly when the session id, the phone or the country code is missing or
  empty, or the id names no session; they do not look at the length.
\<close>

theorem phone_length_checked_by_client_only:
  "(length (trim phoneInput) < 10 \<longrightarrow>
      (\<exists>msg. handleSubmit phoneInput countrySelect clientSessionId ss env h = (ShowsError msg, ss, h)
            \<and> (msg = ''Please enter a phone number'' \<or> msg = ''Please enter a valid phone number'')))
   \<and> (snd (snd (verify_phone phone countryCode sessionId ss env h)) = h \<longleftrightarrow>
        falsy sessionId \<or> falsy phone \<or> falsy countryCode
        \<or> (\<forall>s. sessions_get ss (str_of sessionId) \<noteq> Own s))
   \<and> (snd (snd (update_phone phone countryCode sessionId ss env h)) = h \<longleftrightarrow>
        falsy sessionId \<or> falsy phone \<or> falsy countryCode
        \<or> (\<forall>s. sessions_get ss (str_of sessionId) \<noteq> Own s))"
  by (simp add: verify_phone_untouched update_phone_untouched handleSubmit_def Let_def)

theorem phone_length_checked_by_client_only_witness:
  "length (trim [0xA0, 0x35, 0x35, 0x35, 0x31, 0x32, 0x33, 0x34, 0x35, 0x36, 0xFEFF]) < 10
   \<and> handleSubmit [0xA0, 0x35, 0x35, 0x35, 0x31, 0x32, 0x33, 0x34, 0x35, 0x36, 0xFEFF]
        [0x75, 0x73] (Some [0x73, 0x31]) one_session calm_env [] =
       (ShowsError ''Please enter a valid phone number'', one_session, [])
   \<and> handleSubmit [0x20, 0x2003, 0x09] [0x75, 0x73] (Some [0x73, 0x31]) one_session calm_env [] =
       (ShowsError ''Please enter a phone number'', one_session, [])"
  using phone_length_checked_by_client_only[of
          "[0xA0, 0x35, 0x35, 0x35, 0x31, 0x32, 0x33, 0x34, 0x35, 0x36, 0xFEFF]" "[0x75, 0x73]"
          "Some [0x73, 0x31]" one_session calm_env "[]" "Some ''123''" "Some ''us''" "Some ''s1''"]
  by (simp add: handleSubmit_def trim_def is_space_def Let_def)

section \<open>The password-rejection indicator\<close>

text \<open>
  Claim C10. After the credentials are submitted the handler should wait for the
  navigation, look for the password-rejection indicator \<open>#error-for-password\<close>, and
  register the session and start the challenge flow only when it is absent. The handler
  of app2.js does so. The handler of app3.js keeps the comment "Click login and wait for
  navigation" but only clicks, and never looks for the indicator: on a login page that
  would show it, the handler of app3.js registers the session, answers \<open>"1"\<close> and starts
  the challenge flow, where the handler of app2.js, given the same request, answers
  \<open>"0"\<close> and registers nothing.
\<close>

theorem login_app3_ignores_password_rejection:
  "bool_result wrong_password_env
     (login_calls 1 2 ''user@example.com'' ''wrong''
        @ [Click 2 SelLoginButton, QueryHandle 2 SelPasswordError])
   \<and> login (Some ''s2'') (Some ''user@example.com'') ''wrong'' one_session wrong_password_env [] =
       ((Response 200 (SendText ''1''),
         one_session(''s2'' \<mapsto> \<lparr>browser = 1, page = 2\<rparr>),
         login_calls 1 2 ''user@example.com'' ''wrong''
           @ [Click 2 SelLoginButton, MainFrame 2, FrameEvaluate 0 ClickStartPuzzle,
              FrameEvaluate 1 ClickStartPuzzle]), Fulfilled)
   \<and> login_app2 (Some ''s2'') (Some ''user@example.com'') ''wrong'' one_session
        wrong_password_env [] =
       (Response 200 (SendText ''0''), one_session,
        login_calls 1 2 ''user@example.com'' ''wrong''
          @ [WaitForNavigation 2, Click 2 SelLoginButton, QueryHandle 2 SelPasswordError])"
  by (simp add: login_def login_until_click_def login_after_click_def login_app2_def
        enter_credentials_def login_calls_def session_id_for_def
        handleCaptchaChallenge_round first_match_Cons first_match_Nil search_is_first_match
        matches_at_def numeral_2_eq_2
        io_apply falsy_def str_of_def sessions_get_def object_prototype_keys_def one_session_def
        wrong_password_env_def calm_env_def)

section \<open>The completion check after a tile click\<close>

text \<open>
  Claim C5, as the specification states it, fails in what the new address is compared
  with: the baseline is read after the click, not before it. Here the address is
  \<open>.../challenge\<close> before the click and \<open>.../challenge\<close> after the race, and the
  handler still reports a change (it answers with the header text), because the
  baseline it read right after the click was \<open>.../interstitial\<close>.
\<close>

theorem select_tile_baseline_after_click_counterexample:
  "url_result bounce_env ([Frames 2, FrameEvaluate 0 (ClickTile (JNumber (Finite 3)))] @ [Url 2]) =
     ''https://www.linkedin.com/checkpoint/challenge''
   \<and> select_tile (Some ''s1'') (JNumber (Finite 3)) one_session bounce_env [] =
       (Response 200 (SendText ''Quick security check''), one_session,
        [Frames 2, FrameEvaluate 0 (ClickTile (JNumber (Finite 3))), FrameEvaluate 1 (ClickTile (JNumber (Finite 3))),
         Url 2, Race 2 race_signals, Url 2, Evaluate 2 HeaderText])
   \<and> url_result bounce_env
        [Frames 2, FrameEvaluate 0 (ClickTile (JNumber (Finite 3))), FrameEvaluate 1 (ClickTile (JNumber (Finite 3))),
         Url 2, Race 2 race_signals, Url 2] =
     ''https://www.linkedin.com/checkpoint/challenge''"
  by (simp add: select_tile_def completion_check_def race_signals_def with_page_def
        send_nullable_def invalid_tile_def js_less_def js_greater_def
        io_apply falsy_def str_of_def sessions_get_def one_session_def
        bounce_env_def calm_env_def)

lemma completion_check_run:
  assumes "throws env (h @ [Url pg, Race pg race_signals]) = None"
  shows "completion_check pg env h =
     (if url_result env (h @ [Url pg, Race pg race_signals, Url pg]) = url_result env (h @ [Url pg])
      then (Inr None, h @ [Url pg, Race pg race_signals, Url pg])
      else if includes_str (url_result env (h @ [Url pg, Race pg race_signals, Url pg]))
                ''/login-challenge-submit''
        then (Inr (Some (Response 200 (SendText ''lastcve''))),
              h @ [Url pg, Race pg race_signals, Url pg])
      else case throws env (h @ [Url pg, Race pg race_signals, Url pg, Evaluate pg HeaderText]) of
          None \<Rightarrow>
            (Inr (Some (send_nullable (text_result env
                    (h @ [Url pg, Race pg race_signals, Url pg, Evaluate pg HeaderText])))),
             h @ [Url pg, Race pg race_signals, Url pg, Evaluate pg HeaderText])
        | Some e \<Rightarrow>
            if includes_str (url_result env
                  (h @ [Url pg, Race pg race_signals, Url pg, Evaluate pg HeaderText, Url pg, Url pg]))
                 ''/login-challenge-submit''
            then (Inr (Some (Response 200 (SendText ''lastcve''))),
                  h @ [Url pg, Race pg race_signals, Url pg, Evaluate pg HeaderText, Url pg, Url pg])
            else (Inr None,
                  h @ [Url pg, Race pg race_signals, Url pg, Evaluate pg HeaderText, Url pg, Url pg]))"
  using assms
  by (simp add: completion_check_def race_signals_def io_apply split: option.splits)

lemma select_tile_frames_clicked:
  assumes "throws env (h @ [FrameEvaluate (frame_id f) (ClickTile n)]) = None"
    and "bool_result env (h @ [FrameEvaluate (frame_id f) (ClickTile n)])"
  shows "select_tile_frames pg n (f # fs) env h =
     (case completion_check pg env (h @ [FrameEvaluate (frame_id f) (ClickTile n)]) of
        (Inr None, h') \<Rightarrow> select_tile_frames pg n fs env h'
      | (Inr (Some r), h') \<Rightarrow> (Inr (Some r), h')
      | (Inl e, h') \<Rightarrow> (Inl e, h'))"
proof -
  have "select_tile_frames pg n (f # fs) env h =
          io_bind (completion_check pg) (\<lambda>r.
            case r of
              Some resp \<Rightarrow> io_return (Some resp)
            | None \<Rightarrow> select_tile_frames pg n fs) env
            (h @ [FrameEvaluate (frame_id f) (ClickTile n)])"
    using assms by (simp add: io_bind_remote)
  then show ?thesis
    by (simp add: io_bind_apply io_return_apply split: prod.splits sum.splits option.splits)
qed

text \<open>
  Claim C5, amended. After a click that succeeded (history \<open>hc\<close>), \<open>select-tile\<close> reads
  the baseline address, then races the navigation signal, the network-idle signal and
  the timer, all with a budget of 10000 ms (one \<open>Promise.race\<close>, whose winner the
  environment decides). When the race resolves, it reads the address again (after a
  2 s delay) and compares it with the baseline read after the click: if the two are
  equal it reports nothing and goes on to the remaining frames; only if they differ
  does it answer, with \<open>lastcve\<close> for a dead-end address and with the header text
  otherwise (if reading the header fails, it answers \<open>lastcve\<close> only for a dead-end
  address and otherwise goes on to the remaining frames).
\<close>

theorem completion_check_verifies_address:
  fixes env h pg f n
  defines "hc \<equiv> h @ [FrameEvaluate (frame_id f) (ClickTile n)]"
  defines "h0 \<equiv> hc @ [Url pg]"
  defines "hr \<equiv> h0 @ [Race pg race_signals]"
  defines "hn \<equiv> hr @ [Url pg]"
  defines "hh \<equiv> hn @ [Evaluate pg HeaderText]"
  defines "hf \<equiv> hh @ [Url pg, Url pg]"
  assumes "throws env hc = None" and "bool_result env hc" and "throws env hr = None"
  shows "select_tile_frames pg n (f # fs) env h =
     (if url_result env hn = url_result env h0 then select_tile_frames pg n fs env hn
      else if includes_str (url_result env hn) ''/login-challenge-submit''
        then (Inr (Some (Response 200 (SendText ''lastcve''))), hn)
      else case throws env hh of
          None \<Rightarrow> (Inr (Some (send_nullable (text_result env hh))), hh)
        | Some e \<Rightarrow>
            if includes_str (url_result env hf) ''/login-challenge-submit''
            then (Inr (Some (Response 200 (SendText ''lastcve''))), hf)
            else select_tile_frames pg n fs env hf)"
proof -
  have r: "throws env (hc @ [Url pg, Race pg race_signals]) = None"
    using assms(9) by (simp add: hr_def h0_def)
  show ?thesis
    unfolding select_tile_frames_clicked[OF assms(7,8)[unfolded hc_def], folded hc_def]
      completion_check_run[OF r]
    by (simp add: h0_def hr_def hn_def hh_def hf_def split: option.splits)
qed

theorem completion_check_verifies_address_witness:
  "throws bounce_env ([Frames 2, FrameEvaluate 0 (ClickTile (JNumber (Finite 3)))] @ [FrameEvaluate 1 (ClickTile (JNumber (Finite 3)))]) = None
   \<and> bool_result bounce_env ([Frames 2, FrameEvaluate 0 (ClickTile (JNumber (Finite 3)))] @ [FrameEvaluate 1 (ClickTile (JNumber (Finite 3)))])
   \<and> select_tile_frames 2 (JNumber (Finite 3)) [Frame 1 []] bounce_env [Frames 2, FrameEvaluate 0 (ClickTile (JNumber (Finite 3)))] =
       (Inr (Some (Response 200 (SendText ''Quick security check''))),
        [Frames 2, FrameEvaluate 0 (ClickTile (JNumber (Finite 3))), FrameEvaluate 1 (ClickTile (JNumber (Finite 3))),
         Url 2, Race 2 race_signals, Url 2, Evaluate 2 HeaderText])"
  using completion_check_verifies_address[of bounce_env "[Frames 2, FrameEvaluate 0 (ClickTile (JNumber (Finite 3)))]"
          "Frame 1 []" "JNumber (Finite 3)" 2 "[]"]
  by (simp add: bounce_env_def calm_env_def send_nullable_def)

section \<open>One session per session id\<close>

lemma sessions_get_Absent: "sessions_get ss sid = Absent \<Longrightarrow> ss sid = None"
  by (simp add: sessions_get_def split: option.splits if_splits)

lemma login_registry:
  "fst (snd (fst (login sessionId email password ss env h))) = ss
   \<or> (\<exists>s. ss (session_id_for sessionId env h) = None
          \<and> fst (snd (fst (login sessionId email password ss env h))) =
              ss(session_id_for sessionId env h \<mapsto> s))"
  by (auto simp: login_def login_until_click_def login_after_click_def Let_def
        sessions_get_Absent split: prod.splits sum.splits)

lemma other_routes_registry:
  "fst (snd (security_verification sessionId ss env h)) = ss"
  "fst (snd (select_tile sessionId tileNumber ss env h)) = ss"
  "fst (snd (verify_code code sessionId ss env h)) = ss"
  "fst (snd (verify_sms code sessionId ss env h)) = ss"
  "fst (snd (verify_phone phone countryCode sessionId ss env h)) = ss"
  "fst (snd (update_phone phone countryCode sessionId ss env h)) = ss"
  "fst (snd (check_login_status sessionId ss env h)) = ss"
  "fst (snd (check_puzzle_image sessionId ss env h)) = ss"
  by (simp_all add: security_verification_def select_tile_def verify_code_def verify_sms_def
        verify_phone_def update_phone_def check_login_status_def check_puzzle_image_def
        split: lookup.splits prod.splits sum.splits option.splits)

lemma route_registry:
  "fst (snd (fst (route req ss env h))) = ss
   \<or> (\<exists>new s. ss new = None \<and> fst (snd (fst (route req ss env h))) = ss(new \<mapsto> s))"
proof (cases req)
  case (Login sessionId email password)
  with login_registry[of sessionId email password ss env h] show ?thesis by auto
qed (simp_all add: other_routes_registry)

lemma route_keeps_entries:
  assumes "ss sid = Some s"
  shows "fst (snd (fst (route req ss env h))) sid = Some s"
  using route_registry[of req ss env h] assms by (auto simp: fun_upd_def)

lemma serve_keeps_entries:
  "serve mode reqs ss env h = Some (ss', h') \<Longrightarrow> ss sid = Some s \<Longrightarrow> ss' sid = Some s"
proof (induction reqs arbitrary: ss h)
  case Nil
  then show ?case by simp
next
  case (Cons r rs)
  obtain resp ss1 h1 settled where step: "route r ss env h = ((resp, ss1, h1), settled)"
    by (cases "route r ss env h") auto
  with route_keeps_entries[of ss sid s r env h] Cons.prems(2) have "ss1 sid = Some s" by simp
  moreover from Cons.prems(1) step have "serve mode rs ss1 env h1 = Some (ss', h')"
    by (simp split: if_splits)
  ultimately show ?case by (rule Cons.IH[rotated])
qed

text \<open>With \<open>--unhandled-rejections=warn\<close> the process serves every request.\<close>

lemma serve_warn_mode_runs: "\<exists>ss' h'. serve WarnMode reqs ss env h = Some (ss', h')"
  by (induction reqs arbitrary: ss h) (auto split: prod.splits)

text \<open>
  Claim C7, as the specification states it, fails in two places. A login request that
  names a registered session id but carries no email is not answered "Session already
  exists": the email is checked first, and the answer is "Email is required". And the
  registry does not hold one session per id at all times: the handler tests
  \<open>sessions[sessionId]\<close> before its browser calls and writes it after them, so of two
  login requests for the free id \<open>s2\<close> that overlap, both pass the test, both launch a
  browser (handles 1 and 10), both are answered \<open>"1"\<close>, and the second write replaces
  the entry the first one made.
\<close>

theorem one_session_per_id_counterexample:
  "one_session ''s1'' = Some \<lparr>browser = 1, page = 2\<rparr>
   \<and> login (Some ''s1'') None ''pw'' one_session calm_env [] =
       ((Response 400 (SendText ''Email is required''), one_session, []), Fulfilled)
   \<and> login_overlapping (Some ''s2'') (Some ''a@example.com'') ''pw''
        (Some ''s2'') (Some ''b@example.com'') ''pw'' one_session calm_env [] =
       (Response 200 (SendText ''1''), Response 200 (SendText ''1''),
        one_session(''s2'' \<mapsto> \<lparr>browser = 10, page = 11\<rparr>),
        login_calls 1 2 ''a@example.com'' ''pw'' @ [Click 2 SelLoginButton]
        @ login_calls 10 11 ''b@example.com'' ''pw'' @ [Click 11 SelLoginButton]
        @ [MainFrame 2, FrameEvaluate 0 ClickStartPuzzle, FrameEvaluate 1 ClickStartPuzzle]
        @ [MainFrame 11, FrameEvaluate 0 ClickStartPuzzle, FrameEvaluate 1 ClickStartPuzzle])"
  by (simp add: login_overlapping_def login_def login_until_click_def login_after_click_def
        enter_credentials_def login_calls_def session_id_for_def
        handleCaptchaChallenge_round first_match_Cons first_match_Nil search_is_first_match
        matches_at_def eval_nat_numeral
        io_apply falsy_def str_of_def sessions_get_def object_prototype_keys_def one_session_def
        calm_env_def)

text \<open>
  Claim C7, amended. A login request that names a session id which is already
  registered is turned away with status 400, by "Email is required" if it carries no
  email and by "Session already exists" otherwise; the browser history is returned as
  it was (no browser is launched) and so is the registry, in both versions of the
  handler. When requests are served one after the other, each to its end before the
  next arrives, then as long as the process runs an entry of the registry is never
  replaced or removed, and a single request either leaves the registry as it is or
  adds one entry under an id that had none: each id names at most one session, from
  its registration on.
\<close>

theorem one_session_per_id:
  "(ss sid = Some s \<and> sid \<noteq> [] \<longrightarrow>
      login (Some sid) email password ss env h =
        ((Response 400 (SendText (if falsy email then ''Email is required''
                                   else ''Session already exists'')), ss, h), Fulfilled)
      \<and> login_app2 (Some sid) email password ss env h =
        (Response 400 (SendText (if falsy email then ''Email is required''
                                  else ''Session already exists'')), ss, h))
   \<and> (serve mode reqs ss env h = Some (ss', h') \<and> ss sid = Some s \<longrightarrow> ss' sid = Some s)
   \<and> (fst (snd (fst (route req ss env h))) = ss
      \<or> (\<exists>new s'. ss new = None \<and> fst (snd (fst (route req ss env h))) = ss(new \<mapsto> s')))"
proof -
  have rejected: "login (Some sid) email password ss env h =
        ((Response 400 (SendText (if falsy email then ''Email is required''
                                   else ''Session already exists'')), ss, h), Fulfilled)
      \<and> login_app2 (Some sid) email password ss env h =
        (Response 400 (SendText (if falsy email then ''Email is required''
                                  else ''Session already exists'')), ss, h)"
    if "ss sid = Some s \<and> sid \<noteq> []"
    using that
    by (simp add: login_def login_until_click_def login_app2_def session_id_for_def falsy_def
          str_of_def sessions_get_def)
  have kept: "ss' sid = Some s" if "serve mode reqs ss env h = Some (ss', h') \<and> ss sid = Some s"
    using that serve_keeps_entries[of mode reqs ss env h ss' h' sid s] by blast
  from rejected kept route_registry[of req ss env h] show ?thesis
    by blast
qed

theorem one_session_per_id_witness:
  "one_session ''s1'' = Some \<lparr>browser = 1, page = 2\<rparr> \<and> ''s1'' \<noteq> []
   \<and> login (Some ''s1'') (Some ''user@example.com'') ''pw'' one_session calm_env [] =
        ((Response 400 (SendText ''Session already exists''), one_session, []), Fulfilled)
   \<and> login_app2 (Some ''s1'') (Some ''user@example.com'') ''pw'' one_session calm_env [] =
        (Response 400 (SendText ''Session already exists''), one_session, [])
   \<and> serve ThrowMode [Login (Some ''s1'') (Some ''user@example.com'') ''pw'',
                      Login (Some ''s2'') (Some ''user@example.com'') ''pw'',
                      VerifyCode (Some ''123456'') (Some ''s1'')] one_session calm_env [] =
        Some (one_session(''s2'' \<mapsto> \<lparr>browser = 1, page = 2\<rparr>),
              login_calls 1 2 ''user@example.com'' ''pw''
              @ [Click 2 SelLoginButton, MainFrame 2, FrameEvaluate 0 ClickStartPuzzle,
                 FrameEvaluate 1 ClickStartPuzzle]
              @ pin_calls 2 ''123456'' @ [Url 2])
   \<and> (one_session(''s2'' \<mapsto> \<lparr>browser = 1, page = 2\<rparr>)) ''s1'' = Some \<lparr>browser = 1, page = 2\<rparr>"
proof -
  have a: "one_session ''s1'' = Some \<lparr>browser = 1, page = 2\<rparr>" "''s1'' \<noteq> []"
    by (simp_all add: one_session_def)
  have e: "\<not> falsy (Some ''user@example.com'')"
    by (simp add: falsy_def)
  have run: "serve ThrowMode [Login (Some ''s1'') (Some ''user@example.com'') ''pw'',
                      Login (Some ''s2'') (Some ''user@example.com'') ''pw'',
                      VerifyCode (Some ''123456'') (Some ''s1'')] one_session calm_env [] =
        Some (one_session(''s2'' \<mapsto> \<lparr>browser = 1, page = 2\<rparr>),
              login_calls 1 2 ''user@example.com'' ''pw''
              @ [Click 2 SelLoginButton, MainFrame 2, FrameEvaluate 0 ClickStartPuzzle,
                 FrameEvaluate 1 ClickStartPuzzle]
              @ pin_calls 2 ''123456'' @ [Url 2])"
    by (simp add: login_def login_until_click_def login_after_click_def
          enter_credentials_def login_calls_def session_id_for_def
          handleCaptchaChallenge_round first_match_Cons first_match_Nil search_is_first_match
          matches_at_def numeral_2_eq_2 verify_code_def with_page_def pin_submission_def
          pin_calls_def
          io_apply falsy_def str_of_def sessions_get_def object_prototype_keys_def one_session_def
          calm_env_def)
  from a e run
    one_session_per_id[where ss = one_session and sid = "''s1''"
      and s = "\<lparr>browser = 1, page = 2\<rparr>" and email = "Some ''user@example.com''"
      and password = "''pw''" and env = calm_env and h = "[]" and mode = ThrowMode
      and reqs = "[Login (Some ''s1'') (Some ''user@example.com'') ''pw'',
                   Login (Some ''s2'') (Some ''user@example.com'') ''pw'',
                   VerifyCode (Some ''123456'') (Some ''s1'')]"
      and ss' = "one_session(''s2'' \<mapsto> \<lparr>browser = 1, page = 2\<rparr>)"
      and h' = "login_calls 1 2 ''user@example.com'' ''pw''
              @ [Click 2 SelLoginButton, MainFrame 2, FrameEvaluate 0 ClickStartPuzzle,
                 FrameEvaluate 1 ClickStartPuzzle]
              @ pin_calls 2 ''123456'' @ [Url 2]"
      and req = "Login (Some ''s1'') (Some ''user@example.com'') ''pw''"]
  show ?thesis by (simp del: serve.simps)
qed

text \<open>
  When the challenge flow throws after the response, the handler's promise is rejected:
  with \<open>--unhandled-rejections=throw\<close> the process ends, and the registry with it.
\<close>

lemma login_rejection_ends_process:
  "login (Some ''s2'') (Some ''user@example.com'') ''pw'' one_session detaching_env [] =
     ((Response 200 (SendText ''1''), one_session(''s2'' \<mapsto> \<lparr>browser = 1, page = 2\<rparr>),
       login_calls 1 2 ''user@example.com'' ''pw''
         @ [Click 2 SelLoginButton, MainFrame 2, FrameEvaluate 0 ClickStartPuzzle, Frames 2,
            FrameEvaluate 0 TilesLengthIs6]), Rejected)
   \<and> serve ThrowMode [Login (Some ''s2'') (Some ''user@example.com'') ''pw'']
        one_session detaching_env [] = None
   \<and> serve WarnMode [Login (Some ''s2'') (Some ''user@example.com'') ''pw'']
        one_session detaching_env [] =
       Some (one_session(''s2'' \<mapsto> \<lparr>browser = 1, page = 2\<rparr>),
             login_calls 1 2 ''user@example.com'' ''pw''
               @ [Click 2 SelLoginButton, MainFrame 2, FrameEvaluate 0 ClickStartPuzzle, Frames 2,
                  FrameEvaluate 0 TilesLengthIs6])"
  by (simp add: login_def login_until_click_def login_after_click_def
        enter_credentials_def login_calls_def session_id_for_def
        handleCaptchaChallenge_round first_match_Cons first_match_Nil search_is_first_match
        matches_at_def numeral_2_eq_2 captcha_tiles_loop_Cons handlePuzzleTiles_def
        io_apply falsy_def str_of_def sessions_get_def object_prototype_keys_def one_session_def
        detaching_env_def calm_env_def)

end
